theory Spec2Isabelle
  imports Complex_Main "HOL-Library.Sublist"
begin

section \<open>Python values\<close>

text \<open>
  A Python \<^verbatim>\<open>str\<close> is a sequence of Unicode code points and \<^verbatim>\<open>len\<close> counts code points,
  so a string is a list of code points here. The renderers write a few symbols outside ASCII
  (the warning sign U+26A0 U+FE0F of the truncation notice, the trend arrows), which an
  8-bit \<open>char\<close> cannot hold. \<open>ascii\<close> embeds an ASCII literal.
\<close>

type_synonym ustr = "nat list"

definition ascii :: "string \<Rightarrow> ustr" where
  "ascii s = map of_char s"

text \<open>
  The provider's payload is parsed JSON. A JSON object is an association list read with
  \<open>map_of\<close> (the first binding of a key counts); floats are the rationals they denote
  (rounding, infinities and NaN are not modelled).
\<close>

datatype json =
    JNull
  | JBool bool
  | JInt int
  | JFloat rat
  | JStr ustr
  | JArr "json list"
  | JObj "(ustr \<times> json) list"

text \<open>
  Exceptions are values. \<open>Exception\<close> and \<open>ValueError\<close> carry the message the source (or
  the builtin) gives them, \<open>KeyError\<close> the missing key. \<open>ValidationError\<close> is the one
  pydantic raises for a \<^verbatim>\<open>Field\<close> constraint (\<^verbatim>\<open>min_length\<close>, \<^verbatim>\<open>ge\<close>, a \<^verbatim>\<open>Literal\<close>).
\<close>

datatype error =
    Exception ustr
  | ValueError ustr
  | TypeError
  | KeyError json
  | IndexError
  | ZeroDivisionError
  | AttributeError
  | OverflowError
  | OSError
  | JSONDecodeError
  | ValidationError

text \<open>
  What the source takes from the Python runtime and its libraries, as a parameter: the
  Unicode case tables, \<^verbatim>\<open>float\<close> on a string, the format mini-language on a float,
  \<^verbatim>\<open>datetime.fromtimestamp(t).strftime(...)\<close>, \<^verbatim>\<open>repr\<close>, \<^verbatim>\<open>json.dumps(., indent=2)\<close> and the
  text of a builtin exception. Theorems hold for every runtime unless they say otherwise.
\<close>

record runtime =
  upper_cp :: "nat \<Rightarrow> ustr"
  str_lower :: "ustr \<Rightarrow> ustr"
  str_to_float :: "ustr \<Rightarrow> rat option"
  fmt_float :: "ustr \<Rightarrow> rat \<Rightarrow> ustr"
  strftime_local :: "rat \<Rightarrow> error + ustr"
  repr_value :: "json \<Rightarrow> ustr"
  json_dumps :: "json \<Rightarrow> ustr"
  exc_text :: "error \<Rightarrow> ustr"

definition bind_exc :: "error + 'a \<Rightarrow> ('a \<Rightarrow> error + 'b) \<Rightarrow> error + 'b" where
  "bind_exc m f = (case m of Inl e \<Rightarrow> Inl e | Inr x \<Rightarrow> f x)"

fun map_exc :: "('a \<Rightarrow> error + 'b) \<Rightarrow> 'a list \<Rightarrow> error + 'b list" where
  "map_exc f [] = Inr []"
| "map_exc f (x # xs) =
     bind_exc (f x) (\<lambda>y. bind_exc (map_exc f xs) (\<lambda>ys. Inr (y # ys)))"

subsection \<open>Strings\<close>

text \<open>\<^verbatim>\<open>str(n)\<close> for an integer: its decimal digits.\<close>

function str_nat :: "nat \<Rightarrow> ustr" where
  "str_nat n = (if n < 10 then [48 + n] else str_nat (n div 10) @ [48 + n mod 10])"
  by pat_completeness auto
termination
  by (relation "measure (\<lambda>n. n)") auto

declare str_nat.simps [simp del]

definition str_int :: "int \<Rightarrow> ustr" where
  "str_int i = (if i < 0 then 45 # str_nat (nat (- i)) else str_nat (nat i))"

text \<open>\<^verbatim>\<open>f"{n:,}"\<close> for a natural number: digits in groups of three.\<close>

function fmt_thousands :: "nat \<Rightarrow> ustr" where
  "fmt_thousands n =
     (if n < 1000 then str_nat n
      else fmt_thousands (n div 1000) @ [44] @
           [48 + n mod 1000 div 100, 48 + n mod 100 div 10, 48 + n mod 10])"
  by pat_completeness auto
termination
  by (relation "measure (\<lambda>n. n)") auto

declare fmt_thousands.simps [simp del]

text \<open>\<^verbatim>\<open>sep.join(parts)\<close>.\<close>

fun join :: "ustr \<Rightarrow> ustr list \<Rightarrow> ustr" where
  "join sep [] = []"
| "join sep [x] = x"
| "join sep (x # y # ys) = x @ sep @ join sep (y # ys)"

text \<open>
  \<^verbatim>\<open>str.upper()\<close> maps every code point through the full uppercase table and concatenates;
  \<^verbatim>\<open>str.strip()\<close> drops leading and trailing white space, the code points \<^verbatim>\<open>str.isspace\<close>
  accepts.
\<close>

definition upper :: "runtime \<Rightarrow> ustr \<Rightarrow> ustr" where
  "upper rt s = concat (map (upper_cp rt) s)"

definition is_space :: "nat \<Rightarrow> bool" where
  "is_space c \<longleftrightarrow>
     c \<in> set [9, 10, 11, 12, 13, 28, 29, 30, 31, 32, 133, 160, 5760, 8192, 8193, 8194,
       8195, 8196, 8197, 8198, 8199, 8200, 8201, 8202, 8232, 8233, 8239, 8287, 12288]"

definition strip :: "ustr \<Rightarrow> ustr" where
  "strip s = rev (dropWhile is_space (rev (dropWhile is_space s)))"

text \<open>\<^verbatim>\<open>s.replace(old, new)\<close>: every occurrence of \<open>old\<close>, left to right, without overlap.\<close>

function replace :: "ustr \<Rightarrow> ustr \<Rightarrow> ustr \<Rightarrow> ustr" where
  "replace old new [] = []"
| "replace old new (c # cs) =
     (if old \<noteq> [] \<and> prefix old (c # cs)
      then new @ replace old new (drop (length old) (c # cs))
      else c # replace old new cs)"
  by pat_completeness auto
termination
  by (relation "measure (\<lambda>(old, new, s). length s)") (auto simp: Suc_lessI)

subsection \<open>Dynamic operations\<close>

text \<open>
  The source reads the payload with Python's dynamic operations; each of them is total here
  and returns the exception it would raise. \<open>truthy\<close> is the truth value of \<^verbatim>\<open>if x\<close>,
  \<open>py_get\<close> is \<^verbatim>\<open>x.get(k, d)\<close>, \<open>py_item\<close> is \<^verbatim>\<open>x[k]\<close> for a string key, \<open>py_index\<close>
  is \<^verbatim>\<open>x[i]\<close> for an integer, \<open>py_slice\<close> is \<^verbatim>\<open>x[:n]\<close>, \<open>py_iter\<close> what a \<^verbatim>\<open>for\<close> loop
  visits, \<open>py_len\<close> is \<^verbatim>\<open>len(x)\<close>, \<open>py_contains\<close> is \<^verbatim>\<open>k in x\<close> for a string \<open>k\<close>,
  \<open>py_str\<close> is \<^verbatim>\<open>str(x)\<close> (what an f-string writes), \<open>py_float\<close> is \<^verbatim>\<open>float(x)\<close>.
  Slicing an object raises TypeError before Python 3.12 (KeyError from 3.12 on).
\<close>

fun truthy :: "json \<Rightarrow> bool" where
  "truthy JNull = False"
| "truthy (JBool b) = b"
| "truthy (JInt i) = (i \<noteq> 0)"
| "truthy (JFloat x) = (x \<noteq> 0)"
| "truthy (JStr s) = (s \<noteq> [])"
| "truthy (JArr xs) = (xs \<noteq> [])"
| "truthy (JObj kvs) = (kvs \<noteq> [])"

fun py_get :: "json \<Rightarrow> ustr \<Rightarrow> json \<Rightarrow> error + json" where
  "py_get (JObj kvs) k d = Inr (case map_of kvs k of None \<Rightarrow> d | Some v \<Rightarrow> v)"
| "py_get _ k d = Inl AttributeError"

fun py_item :: "json \<Rightarrow> ustr \<Rightarrow> error + json" where
  "py_item (JObj kvs) k =
     (case map_of kvs k of None \<Rightarrow> Inl (KeyError (JStr k)) | Some v \<Rightarrow> Inr v)"
| "py_item _ k = Inl TypeError"

definition list_index :: "'a list \<Rightarrow> int \<Rightarrow> 'a option" where
  "list_index xs i =
     (if 0 \<le> i \<and> i < int (length xs) then Some (xs ! nat i)
      else if i < 0 \<and> - i \<le> int (length xs) then Some (xs ! nat (int (length xs) + i))
      else None)"

fun py_index :: "json \<Rightarrow> int \<Rightarrow> error + json" where
  "py_index (JArr xs) i = (case list_index xs i of None \<Rightarrow> Inl IndexError | Some v \<Rightarrow> Inr v)"
| "py_index (JStr s) i =
     (case list_index s i of None \<Rightarrow> Inl IndexError | Some c \<Rightarrow> Inr (JStr [c]))"
| "py_index (JObj kvs) i = Inl (KeyError (JInt i))"
| "py_index _ i = Inl TypeError"

fun py_slice :: "nat \<Rightarrow> json \<Rightarrow> error + json" where
  "py_slice n (JArr xs) = Inr (JArr (take n xs))"
| "py_slice n (JStr s) = Inr (JStr (take n s))"
| "py_slice n _ = Inl TypeError"

fun py_iter :: "json \<Rightarrow> error + json list" where
  "py_iter (JArr xs) = Inr xs"
| "py_iter (JStr s) = Inr (map (\<lambda>c. JStr [c]) s)"
| "py_iter (JObj kvs) = Inr (map (\<lambda>kv. JStr (fst kv)) kvs)"
| "py_iter _ = Inl TypeError"

fun py_len :: "json \<Rightarrow> error + nat" where
  "py_len (JArr xs) = Inr (length xs)"
| "py_len (JStr s) = Inr (length s)"
| "py_len (JObj kvs) = Inr (length kvs)"
| "py_len _ = Inl TypeError"

fun py_contains :: "ustr \<Rightarrow> json \<Rightarrow> error + bool" where
  "py_contains k (JObj kvs) = Inr (map_of kvs k \<noteq> None)"
| "py_contains k (JArr xs) = Inr (JStr k \<in> set xs)"
| "py_contains k (JStr s) = Inr (sublist k s)"
| "py_contains k _ = Inl TypeError"

fun py_str :: "runtime \<Rightarrow> json \<Rightarrow> ustr" where
  "py_str rt (JStr s) = s"
| "py_str rt (JInt i) = str_int i"
| "py_str rt JNull = ascii ''None''"
| "py_str rt (JBool b) = (if b then ascii ''True'' else ascii ''False'')"
| "py_str rt v = repr_value rt v"

text \<open>An integer converts to a float when it rounds to a finite double.\<close>

definition float_of_int :: "int \<Rightarrow> error + rat" where
  "float_of_int i = (if \<bar>i\<bar> < 2 ^ 1024 - 2 ^ 970 then Inr (of_int i) else Inl OverflowError)"

fun py_float :: "runtime \<Rightarrow> json \<Rightarrow> error + rat" where
  "py_float rt (JStr s) =
     (case str_to_float rt s of
        None \<Rightarrow> Inl (ValueError (ascii ''could not convert string to float: '' @
                                   repr_value rt (JStr s)))
      | Some x \<Rightarrow> Inr x)"
| "py_float rt (JInt i) = float_of_int i"
| "py_float rt (JFloat x) = Inr x"
| "py_float rt (JBool b) = Inr (if b then 1 else 0)"
| "py_float rt _ = Inl TypeError"

text \<open>Float division raises on a zero divisor.\<close>

definition py_div :: "rat \<Rightarrow> rat \<Rightarrow> error + rat" where
  "py_div a b = (if b = 0 then Inl ZeroDivisionError else Inr (a / b))"

text \<open>
  \<^verbatim>\<open>price, qty = item\<close>: the item must iterate to exactly two values (the messages are
  those up to Python 3.13).
\<close>

definition unpack2 :: "json \<Rightarrow> error + json \<times> json" where
  "unpack2 item =
     bind_exc (py_iter item) (\<lambda>vs.
       case vs of
         [a, b] \<Rightarrow> Inr (a, b)
       | _ \<Rightarrow>
           if length vs < 2
           then Inl (ValueError (ascii ''not enough values to unpack (expected 2, got '' @
                                 str_nat (length vs) @ ascii '')''))
           else Inl (ValueError (ascii ''too many values to unpack (expected 2)'')))"

text \<open>\<^verbatim>\<open>str(e)\<close> in an \<^verbatim>\<open>except\<close> clause.\<close>

definition str_exc :: "runtime \<Rightarrow> error \<Rightarrow> ustr" where
  "str_exc rt e =
     (case e of
        Exception m \<Rightarrow> m
      | ValueError m \<Rightarrow> m
      | KeyError k \<Rightarrow> repr_value rt k
      | _ \<Rightarrow> exc_text rt e)"

section \<open>Constants and utilities\<close>

definition CHARACTER_LIMIT :: nat where
  "CHARACTER_LIMIT = 25000"

definition BINANCE_API_BASE :: ustr where
  "BINANCE_API_BASE = ascii ''https://data-api.binance.vision''"

text \<open>
  \<^verbatim>\<open>format_timestamp\<close>: \<^verbatim>\<open>timestamp_ms / 1000.0\<close> needs a number, then
  \<^verbatim>\<open>datetime.fromtimestamp\<close> and \<^verbatim>\<open>strftime\<close> are the runtime's (they raise out of the
  platform's range).
\<close>

fun format_timestamp :: "runtime \<Rightarrow> json \<Rightarrow> error + ustr" where
  "format_timestamp rt (JInt i) =
     bind_exc (float_of_int i) (\<lambda>x. strftime_local rt (x / 1000))"
| "format_timestamp rt (JFloat x) = strftime_local rt (x / 1000)"
| "format_timestamp rt (JBool b) = strftime_local rt ((if b then 1 else 0) / 1000)"
| "format_timestamp rt _ = Inl TypeError"

text \<open>\<^verbatim>\<open>format_number\<close>; its bare \<^verbatim>\<open>except\<close> turns every failure into \<^verbatim>\<open>str(value)\<close>.\<close>

definition format_number :: "runtime \<Rightarrow> json \<Rightarrow> nat \<Rightarrow> ustr" where
  "format_number rt v decimals =
     (case py_float rt v of
        Inl e \<Rightarrow> py_str rt v
      | Inr num \<Rightarrow>
          if num \<ge> 1000000000 then [36] @ fmt_float rt (ascii ''.2f'') (num / 1000000000) @ ascii ''B''
          else if num \<ge> 1000000 then [36] @ fmt_float rt (ascii ''.2f'') (num / 1000000) @ ascii ''M''
          else if num \<ge> 1000 then [36] @ fmt_float rt (ascii ''.2f'') (num / 1000) @ ascii ''K''
          else [36] @ fmt_float rt (ascii '',.'' @ str_nat decimals @ ascii ''f'') num)"

text \<open>
  \<^verbatim>\<open>truncate_response\<close>. \<open>format_func\<close> may raise; \<open>item_limit\<close> is \<open>None\<close> by default and
  counts as given only when it is a non-zero integer.
\<close>

definition list_truncation_msg :: "nat \<Rightarrow> nat \<Rightarrow> ustr" where
  "list_truncation_msg truncated_count n =
     [10, 10, 9888, 65039] @ ascii '' Response truncated: Showing '' @ str_nat truncated_count @
     ascii '' of '' @ str_nat n @ ascii '' items'' @ [10, 10] @
     ascii ''The full response exceeds the '' @ fmt_thousands CHARACTER_LIMIT @
     ascii '' character limit.'' @ [10, 10] @
     ascii ''To get more specific results:'' @ [10] @
     ascii ''- Request fewer items'' @ [10] @
     ascii ''- Use filters to narrow down results'' @ [10] @
     ascii ''- Request data in multiple smaller queries''"

definition hard_truncation_msg :: ustr where
  "hard_truncation_msg =
     [10, 10, 9888, 65039] @ ascii '' Response truncated at '' @ fmt_thousands CHARACTER_LIMIT @
     ascii '' characters'' @ [10, 10] @
     ascii ''The full response was too large. Try using filters to get more specific data.''"

definition truncate_response ::
  "json \<Rightarrow> (json \<Rightarrow> error + ustr) \<Rightarrow> int option \<Rightarrow> error + ustr \<times> bool \<times> ustr option" where
  "truncate_response data format_func item_limit =
     bind_exc (format_func data) (\<lambda>full_result.
       if length full_result \<le> CHARACTER_LIMIT then Inr (full_result, False, None)
       else
         (case data of
            JArr xs \<Rightarrow>
              if item_limit \<noteq> None \<and> item_limit \<noteq> Some 0
              then
                (let truncated_count = max 1 (length xs div 2);
                     truncated_data = JArr (take truncated_count xs)
                 in bind_exc (format_func truncated_data) (\<lambda>truncated_result.
                      let truncation_msg = list_truncation_msg truncated_count (length xs)
                      in Inr (truncated_result @ truncation_msg, True, Some truncation_msg)))
              else
                Inr (take CHARACTER_LIMIT full_result @ hard_truncation_msg, True,
                     Some hard_truncation_msg)
          | _ \<Rightarrow>
              Inr (take CHARACTER_LIMIT full_result @ hard_truncation_msg, True,
                   Some hard_truncation_msg)))"

section \<open>Formatting functions\<close>

text \<open>
  Each renderer builds the list \<^verbatim>\<open>output\<close> of lines and joins it with a newline. The
  \<open>_lines\<close> function is that list; a failure anywhere aborts the rendering.
\<close>

definition NA :: json where
  "NA = JStr (ascii ''N/A'')"

definition trend_emoji :: "rat \<Rightarrow> ustr" where
  "trend_emoji x = (if x > 0 then [128200] else if x < 0 then [128201] else [10145, 65039])"

text \<open>\<^verbatim>\<open>f"{label}${float(v):,.2f}" if v != "N/A" else f"{label}N/A"\<close>.\<close>

definition price_or_na :: "runtime \<Rightarrow> ustr \<Rightarrow> json \<Rightarrow> error + ustr" where
  "price_or_na rt label v =
     (if v \<noteq> NA
      then bind_exc (py_float rt v) (\<lambda>x. Inr (label @ [36] @ fmt_float rt (ascii '',.2f'') x))
      else Inr (label @ ascii ''N/A''))"

text \<open>\<^verbatim>\<open>format_ticker_markdown\<close>: the statements under \<^verbatim>\<open>if ticker_type == "FULL"\<close>.\<close>

definition ticker_full_lines :: "runtime \<Rightarrow> json \<Rightarrow> json \<Rightarrow> error + ustr list" where
  "ticker_full_lines rt ticker symbol =
     bind_exc (py_get ticker (ascii ''priceChange'') (JStr (ascii ''0''))) (\<lambda>change.
     bind_exc (py_get ticker (ascii ''priceChangePercent'') (JStr (ascii ''0''))) (\<lambda>change_pct.
     bind_exc (py_float rt change) (\<lambda>change_float.
     bind_exc (py_float rt change_pct) (\<lambda>pct.
     bind_exc (py_get ticker (ascii ''highPrice'') NA) (\<lambda>high.
     bind_exc (py_get ticker (ascii ''lowPrice'') NA) (\<lambda>low.
     bind_exc (price_or_na rt (ascii ''- **24h High**: '') high) (\<lambda>high_line.
     bind_exc (price_or_na rt (ascii ''- **24h Low**: '') low) (\<lambda>low_line.
     bind_exc (py_get ticker (ascii ''volume'') NA) (\<lambda>volume.
     bind_exc (py_get ticker (ascii ''quoteVolume'') NA) (\<lambda>quote_volume.
     bind_exc
       (if volume \<noteq> NA
        then (case symbol of
                JStr s \<Rightarrow>
                  (let base_asset =
                         replace (ascii ''ETH'') [] (replace (ascii ''BTC'') []
                           (replace (ascii ''BUSD'') [] (replace (ascii ''USDT'') [] s)))
                   in bind_exc (py_float rt volume) (\<lambda>x.
                        Inr [ascii ''- **24h Volume**: '' @ fmt_float rt (ascii '',.2f'') x @
                             ascii '' '' @ base_asset]))
              | _ \<Rightarrow> Inl AttributeError)
        else Inr []) (\<lambda>volume_lines.
     let quote_lines =
           (if quote_volume \<noteq> NA
            then [ascii ''- **24h Quote Volume**: '' @ format_number rt quote_volume 2]
            else [])
     in
     bind_exc (py_contains (ascii ''weightedAvgPrice'') ticker) (\<lambda>has_avg.
     bind_exc
       (if has_avg
        then bind_exc (py_item ticker (ascii ''weightedAvgPrice'')) (\<lambda>v.
             bind_exc (py_float rt v) (\<lambda>x.
               Inr [ascii ''- **Weighted Avg Price**: $'' @ fmt_float rt (ascii '',.2f'') x]))
        else Inr []) (\<lambda>avg_lines.
     bind_exc (py_contains (ascii ''bidPrice'') ticker) (\<lambda>has_bid.
     bind_exc
       (if has_bid
        then bind_exc (py_item ticker (ascii ''bidPrice'')) (\<lambda>v.
             bind_exc (py_float rt v) (\<lambda>x.
             bind_exc (py_get ticker (ascii ''bidQty'') (JInt 0)) (\<lambda>q.
             bind_exc (py_float rt q) (\<lambda>y.
               Inr [ascii ''- **Best Bid**: $'' @ fmt_float rt (ascii '',.2f'') x @
                    ascii '' (Qty: '' @ fmt_float rt (ascii '',.4f'') y @ ascii '')'']))))
        else Inr []) (\<lambda>bid_lines.
     bind_exc (py_contains (ascii ''askPrice'') ticker) (\<lambda>has_ask.
     bind_exc
       (if has_ask
        then bind_exc (py_item ticker (ascii ''askPrice'')) (\<lambda>v.
             bind_exc (py_float rt v) (\<lambda>x.
             bind_exc (py_get ticker (ascii ''askQty'') (JInt 0)) (\<lambda>q.
             bind_exc (py_float rt q) (\<lambda>y.
               Inr [ascii ''- **Best Ask**: $'' @ fmt_float rt (ascii '',.2f'') x @
                    ascii '' (Qty: '' @ fmt_float rt (ascii '',.4f'') y @ ascii '')'']))))
        else Inr []) (\<lambda>ask_lines.
     Inr ([ascii ''- **24h Change**: '' @ trend_emoji change_float @ ascii '' '' @
           fmt_float rt (ascii ''.2f'') pct @ ascii ''% ($'' @
           fmt_float rt (ascii '',.2f'') change_float @ ascii '')'',
           high_line, low_line] @
          volume_lines @ quote_lines @ avg_lines @ bid_lines @ ask_lines))))))))))))))))))"

text \<open>\<^verbatim>\<open>format_ticker_markdown\<close>: the body of the loop over the tickers.\<close>

definition ticker_lines :: "runtime \<Rightarrow> ustr \<Rightarrow> json \<Rightarrow> error + ustr list" where
  "ticker_lines rt ticker_type ticker =
     bind_exc (py_get ticker (ascii ''symbol'') (JStr (ascii ''Unknown''))) (\<lambda>symbol.
     bind_exc (py_get ticker (ascii ''price'') NA) (\<lambda>price_default.
     bind_exc (py_get ticker (ascii ''lastPrice'') price_default) (\<lambda>price.
     bind_exc (price_or_na rt (ascii ''- **Current Price**: '') price) (\<lambda>price_line.
     bind_exc (if ticker_type = ascii ''FULL'' then ticker_full_lines rt ticker symbol
               else Inr []) (\<lambda>full_lines.
     bind_exc (py_get ticker (ascii ''closeTime'') JNull) (\<lambda>close_time.
     bind_exc
       (if truthy close_time
        then bind_exc (format_timestamp rt close_time) (\<lambda>t.
               Inr [ascii ''- **Last Updated**: '' @ t])
        else Inr []) (\<lambda>time_lines.
     Inr ([ascii ''## '' @ py_str rt symbol @ [10], price_line] @ full_lines @ time_lines @
          [[]]))))))))"

definition format_ticker_markdown :: "runtime \<Rightarrow> json \<Rightarrow> ustr \<Rightarrow> error + ustr" where
  "format_ticker_markdown rt tickers ticker_type =
     (if \<not> truthy tickers then Inr (ascii ''No ticker data found.'')
      else
        bind_exc (py_iter tickers) (\<lambda>ts.
        bind_exc (map_exc (ticker_lines rt ticker_type) ts) (\<lambda>blocks.
          Inr (join [10] ([ascii ''# Binance Ticker Information'' @ [10]] @ concat blocks)))))"

text \<open>\<^verbatim>\<open>format_symbols_markdown\<close>.\<close>

definition symbol_lines :: "runtime \<Rightarrow> json \<Rightarrow> error + ustr list" where
  "symbol_lines rt symb =
     bind_exc (py_get symb (ascii ''symbol'') (JStr (ascii ''Unknown''))) (\<lambda>symbol.
     bind_exc (py_get symb (ascii ''status'') (JStr (ascii ''Unknown''))) (\<lambda>status.
     bind_exc (py_get symb (ascii ''baseAsset'') (JStr [])) (\<lambda>base.
     bind_exc (py_get symb (ascii ''quoteAsset'') (JStr [])) (\<lambda>quote.
     bind_exc (py_get symb (ascii ''isSpotTradingAllowed'') JNull) (\<lambda>spot.
     bind_exc (py_get symb (ascii ''isMarginTradingAllowed'') JNull) (\<lambda>margin.
     bind_exc (py_get symb (ascii ''ocoAllowed'') JNull) (\<lambda>oco.
     bind_exc (py_get symb (ascii ''otoAllowed'') JNull) (\<lambda>oto.
     let status_emoji = (if status = JStr (ascii ''TRADING'') then [9989] else [9208, 65039]);
         features = (if truthy spot then [ascii ''Spot''] else []) @
                    (if truthy margin then [ascii ''Margin''] else []) @
                    (if truthy oco then [ascii ''OCO''] else []) @
                    (if truthy oto then [ascii ''OTO''] else [])
     in Inr ([ascii ''## '' @ py_str rt symbol @ ascii '' '' @ status_emoji,
              ascii ''- **Base Asset**: '' @ py_str rt base,
              ascii ''- **Quote Asset**: '' @ py_str rt quote,
              ascii ''- **Status**: '' @ py_str rt status] @
             (if features \<noteq> []
              then [ascii ''- **Supported**: '' @ join (ascii '', '') features] else []) @
             [[]])))))))))"

definition format_symbols_markdown :: "runtime \<Rightarrow> json \<Rightarrow> error + ustr" where
  "format_symbols_markdown rt symbols =
     (if \<not> truthy symbols then Inr (ascii ''No symbols found matching your criteria.'')
      else
        bind_exc (py_len symbols) (\<lambda>n.
        bind_exc (py_iter symbols) (\<lambda>syms.
        bind_exc (map_exc (symbol_lines rt) syms) (\<lambda>blocks.
          Inr (join [10] ([ascii ''# Found '' @ str_nat n @ ascii '' Trading Pairs'' @ [10]] @
                          concat blocks))))))"

text \<open>
  \<^verbatim>\<open>format_order_book_markdown\<close>. \<open>book_row\<close> is the body of the loops over a side,
  \<open>book_rows\<close> the loop over \<^verbatim>\<open>side[:10]\<close>, \<open>spread_analysis\<close> the values computed under
  \<^verbatim>\<open>if bids and asks\<close>: best bid, best ask, spread and spread percentage.
\<close>

definition book_row :: "runtime \<Rightarrow> json \<Rightarrow> error + ustr" where
  "book_row rt item =
     bind_exc (unpack2 item) (\<lambda>(price, qty).
     bind_exc (py_float rt price) (\<lambda>p.
     bind_exc (py_float rt qty) (\<lambda>q.
       let total = p * q
       in Inr (ascii ''| $'' @ fmt_float rt (ascii '',.2f'') p @ ascii '' | '' @
               fmt_float rt (ascii '',.6f'') q @ ascii '' | $'' @
               fmt_float rt (ascii '',.2f'') total @ ascii '' |''))))"

definition book_rows :: "runtime \<Rightarrow> json \<Rightarrow> error + ustr list" where
  "book_rows rt side =
     bind_exc (py_slice 10 side) (\<lambda>top.
     bind_exc (py_iter top) (\<lambda>items. map_exc (book_row rt) items))"

definition spread_analysis :: "runtime \<Rightarrow> json \<Rightarrow> json \<Rightarrow> error + rat \<times> rat \<times> rat \<times> rat" where
  "spread_analysis rt bids asks =
     bind_exc (py_index bids 0) (\<lambda>bid0.
     bind_exc (py_index bid0 0) (\<lambda>bid_price.
     bind_exc (py_float rt bid_price) (\<lambda>best_bid.
     bind_exc (py_index asks 0) (\<lambda>ask0.
     bind_exc (py_index ask0 0) (\<lambda>ask_price.
     bind_exc (py_float rt ask_price) (\<lambda>best_ask.
       let spread = best_ask - best_bid
       in bind_exc (py_div spread best_bid) (\<lambda>ratio.
            Inr (best_bid, best_ask, spread, ratio * 100))))))))"

definition spread_lines :: "runtime \<Rightarrow> json \<Rightarrow> json \<Rightarrow> error + ustr list" where
  "spread_lines rt bids asks =
     (if truthy bids \<and> truthy asks
      then bind_exc (spread_analysis rt bids asks) (\<lambda>(best_bid, best_ask, spread, spread_pct).
             Inr [[10] @ ascii ''## Spread Analysis'',
                  ascii ''- **Best Bid**: $'' @ fmt_float rt (ascii '',.2f'') best_bid,
                  ascii ''- **Best Ask**: $'' @ fmt_float rt (ascii '',.2f'') best_ask,
                  ascii ''- **Spread**: $'' @ fmt_float rt (ascii '',.2f'') spread @
                  ascii '' ('' @ fmt_float rt (ascii ''.3f'') spread_pct @ ascii ''%)''])
      else Inr [])"

definition book_note :: "nat \<Rightarrow> nat \<Rightarrow> ustr" where
  "book_note n_bids n_asks =
     [10] @ ascii ''*Showing top 10 levels. Total bids: '' @ str_nat n_bids @
     ascii '', Total asks: '' @ str_nat n_asks @ ascii ''*''"

definition order_book_lines :: "runtime \<Rightarrow> json \<Rightarrow> ustr \<Rightarrow> error + ustr list" where
  "order_book_lines rt data symbol =
     bind_exc (py_get data (ascii ''bids'') (JArr [])) (\<lambda>bids.
     bind_exc (py_get data (ascii ''asks'') (JArr [])) (\<lambda>asks.
     bind_exc (py_get data (ascii ''lastUpdateId'') NA) (\<lambda>update_id.
     bind_exc (book_rows rt bids) (\<lambda>bid_rows.
     bind_exc (book_rows rt asks) (\<lambda>ask_rows.
     bind_exc (spread_lines rt bids asks) (\<lambda>summary.
     bind_exc (py_len bids) (\<lambda>n_bids.
     bind_exc (py_len asks) (\<lambda>n_asks.
       Inr ([ascii ''# Order Book for '' @ symbol @ [10],
             ascii ''**Last Update ID**: '' @ py_str rt update_id @ [10],
             ascii ''## Top Bids (Buy Orders)'',
             ascii ''| Price | Quantity | Total |'',
             ascii ''|-------|----------|-------|''] @
            bid_rows @
            [[10] @ ascii ''## Top Asks (Sell Orders)'',
             ascii ''| Price | Quantity | Total |'',
             ascii ''|-------|----------|-------|''] @
            ask_rows @ summary @ [book_note n_bids n_asks])))))))))"

definition format_order_book_markdown :: "runtime \<Rightarrow> json \<Rightarrow> ustr \<Rightarrow> error + ustr" where
  "format_order_book_markdown rt data symbol =
     bind_exc (order_book_lines rt data symbol) (\<lambda>output. Inr (join [10] output))"

text \<open>
  \<^verbatim>\<open>format_klines_markdown\<close>. \<open>kline_row\<close> is the body of the loop over \<^verbatim>\<open>klines[:50]\<close>,
  \<open>period_summary\<close> the values computed under \<^verbatim>\<open>if len(klines) > 0\<close>: first close, last
  close and overall change.
\<close>

definition kline_row :: "runtime \<Rightarrow> json \<Rightarrow> error + ustr" where
  "kline_row rt kline =
     bind_exc (py_index kline 0) (\<lambda>t.
     bind_exc (format_timestamp rt t) (\<lambda>open_time.
     bind_exc (py_index kline 1) (\<lambda>v1. bind_exc (py_float rt v1) (\<lambda>open_price.
     bind_exc (py_index kline 2) (\<lambda>v2. bind_exc (py_float rt v2) (\<lambda>high.
     bind_exc (py_index kline 3) (\<lambda>v3. bind_exc (py_float rt v3) (\<lambda>low.
     bind_exc (py_index kline 4) (\<lambda>v4. bind_exc (py_float rt v4) (\<lambda>close.
     bind_exc (py_index kline 5) (\<lambda>v5. bind_exc (py_float rt v5) (\<lambda>volume.
     bind_exc (if open_price > 0
               then bind_exc (py_div (close - open_price) open_price) (\<lambda>r. Inr (r * 100))
               else Inr 0) (\<lambda>change_pct.
       Inr (ascii ''| '' @ open_time @ ascii '' | $'' @ fmt_float rt (ascii '',.2f'') open_price @
            ascii '' | $'' @ fmt_float rt (ascii '',.2f'') high @ ascii '' | '' @
            ascii ''$'' @ fmt_float rt (ascii '',.2f'') low @
            ascii '' | $'' @ fmt_float rt (ascii '',.2f'') close @
            ascii '' | '' @ fmt_float rt (ascii '',.2f'') volume @ ascii '' | '' @
            trend_emoji change_pct @ ascii '' '' @ fmt_float rt (ascii ''+.2f'') change_pct @
            ascii ''% |''))))))))))))))"

definition kline_rows :: "runtime \<Rightarrow> json \<Rightarrow> error + ustr list" where
  "kline_rows rt klines =
     bind_exc (py_slice 50 klines) (\<lambda>top.
     bind_exc (py_iter top) (\<lambda>items. map_exc (kline_row rt) items))"

definition period_summary :: "runtime \<Rightarrow> json \<Rightarrow> error + rat \<times> rat \<times> rat" where
  "period_summary rt klines =
     bind_exc (py_index klines 0) (\<lambda>first_candle.
     bind_exc (py_index klines (- 1)) (\<lambda>last_candle.
     bind_exc (py_index first_candle 4) (\<lambda>c1. bind_exc (py_float rt c1) (\<lambda>first_close.
     bind_exc (py_index last_candle 4) (\<lambda>c2. bind_exc (py_float rt c2) (\<lambda>last_close.
     bind_exc (if first_close > 0
               then bind_exc (py_div (last_close - first_close) first_close)
                      (\<lambda>r. Inr (r * 100))
               else Inr 0) (\<lambda>overall_change.
       Inr (first_close, last_close, overall_change))))))))"

definition klines_note :: "nat \<Rightarrow> ustr" where
  "klines_note n =
     [10] @ ascii ''*Showing first 50 of '' @ str_nat n @
     ascii '' candles. Use start_time/end_time to get specific ranges.*''"

definition candles_shown :: "nat \<Rightarrow> ustr" where
  "candles_shown n =
     ascii ''- **Candles Shown**: '' @ str_nat (min n 50) @ ascii '' of '' @ str_nat n"

definition klines_lines :: "runtime \<Rightarrow> json \<Rightarrow> ustr \<Rightarrow> ustr \<Rightarrow> error + ustr list" where
  "klines_lines rt klines symbol interval =
     bind_exc (kline_rows rt klines) (\<lambda>rows.
     bind_exc (py_len klines) (\<lambda>n.
     bind_exc
       (if n > 0
        then bind_exc (period_summary rt klines) (\<lambda>(first_close, last_close, overall_change).
               Inr [[10] @ ascii ''## Period Summary'',
                    ascii ''- **First Close**: $'' @ fmt_float rt (ascii '',.2f'') first_close,
                    ascii ''- **Last Close**: $'' @ fmt_float rt (ascii '',.2f'') last_close,
                    ascii ''- **Overall Change**: '' @
                    fmt_float rt (ascii ''+.2f'') overall_change @ ascii ''%'',
                    candles_shown n])
        else Inr []) (\<lambda>summary.
       Inr ([ascii ''# Candlestick Data for '' @ symbol @ ascii '' ('' @ interval @
             ascii '' interval)'' @ [10],
             ascii ''| Time | Open | High | Low | Close | Volume | Change % |'',
             ascii ''|------|------|------|-----|-------|--------|----------|''] @
            rows @ summary @ (if n > 50 then [klines_note n] else [])))))"

definition format_klines_markdown :: "runtime \<Rightarrow> json \<Rightarrow> ustr \<Rightarrow> ustr \<Rightarrow> error + ustr" where
  "format_klines_markdown rt klines symbol interval =
     (if \<not> truthy klines
      then Inr (ascii ''No kline data found for '' @ symbol @ ascii '' with interval '' @
                interval @ ascii ''.'')
      else bind_exc (klines_lines rt klines symbol interval) (\<lambda>output.
             Inr (join [10] output)))"

text \<open>
  \<^verbatim>\<open>format_trades_markdown\<close>. \<open>trade_row\<close> is the body of the loop over \<^verbatim>\<open>trades[:50]\<close>;
  \<open>qty_sum rt maker\<close> is \<^verbatim>\<open>sum(float(t["qty"]) for t in trades if ...)\<close> over the trades
  whose \<^verbatim>\<open>isBuyerMaker\<close> has the truth value \<open>maker\<close>.
\<close>

definition trade_row :: "runtime \<Rightarrow> json \<Rightarrow> error + ustr" where
  "trade_row rt trade =
     bind_exc (py_get trade (ascii ''time'') (JInt 0)) (\<lambda>t.
     bind_exc (format_timestamp rt t) (\<lambda>time.
     bind_exc (py_get trade (ascii ''price'') (JInt 0)) (\<lambda>v1.
     bind_exc (py_float rt v1) (\<lambda>price.
     bind_exc (py_get trade (ascii ''qty'') (JInt 0)) (\<lambda>v2.
     bind_exc (py_float rt v2) (\<lambda>qty.
     bind_exc (py_get trade (ascii ''isBuyerMaker'') (JBool False)) (\<lambda>is_buyer_maker.
       let total = price * qty;
           side = (if truthy is_buyer_maker then ascii ''Sell'' else ascii ''Buy'');
           side_emoji = (if truthy is_buyer_maker then [128308] else [128994])
       in Inr (ascii ''| '' @ time @ ascii '' | $'' @ fmt_float rt (ascii '',.2f'') price @
               ascii '' | '' @ fmt_float rt (ascii '',.6f'') qty @ ascii '' | $'' @
               fmt_float rt (ascii '',.2f'') total @ ascii '' | '' @ side_emoji @ ascii '' '' @
               side @ ascii '' |''))))))))"

definition trade_rows :: "runtime \<Rightarrow> json \<Rightarrow> error + ustr list" where
  "trade_rows rt trades =
     bind_exc (py_slice 50 trades) (\<lambda>top.
     bind_exc (py_iter top) (\<lambda>items. map_exc (trade_row rt) items))"

fun qty_sum :: "runtime \<Rightarrow> bool \<Rightarrow> json list \<Rightarrow> error + rat" where
  "qty_sum rt maker [] = Inr 0"
| "qty_sum rt maker (t # ts) =
     bind_exc (py_get t (ascii ''isBuyerMaker'') (JBool False)) (\<lambda>m.
     bind_exc (if truthy m = maker
               then bind_exc (py_item t (ascii ''qty'')) (\<lambda>v. py_float rt v)
               else Inr 0) (\<lambda>x.
     bind_exc (qty_sum rt maker ts) (\<lambda>s. Inr (x + s))))"

definition volume_line :: "runtime \<Rightarrow> ustr \<Rightarrow> rat \<Rightarrow> rat \<Rightarrow> error + ustr" where
  "volume_line rt label volume total_volume =
     (if total_volume > 0
      then bind_exc (py_div volume total_volume) (\<lambda>r.
             Inr (label @ fmt_float rt (ascii '',.6f'') volume @ ascii '' ('' @
                  fmt_float rt (ascii ''.1f'') (r * 100) @ ascii ''%)''))
      else Inr (label @ ascii ''0''))"

definition trades_note :: "nat \<Rightarrow> ustr" where
  "trades_note n =
     [10] @ ascii ''*Showing 50 most recent of '' @ str_nat n @ ascii '' trades.*''"

definition trades_lines :: "runtime \<Rightarrow> json \<Rightarrow> ustr \<Rightarrow> error + ustr list" where
  "trades_lines rt trades symbol =
     bind_exc (trade_rows rt trades) (\<lambda>rows.
     bind_exc (py_iter trades) (\<lambda>ts.
     bind_exc (qty_sum rt False ts) (\<lambda>buy_volume.
     bind_exc (qty_sum rt True ts) (\<lambda>sell_volume.
     let total_volume = buy_volume + sell_volume
     in
     bind_exc (py_len trades) (\<lambda>n.
     bind_exc (volume_line rt (ascii ''- **Buy Volume**: '') buy_volume total_volume) (\<lambda>buy_line.
     bind_exc (volume_line rt (ascii ''- **Sell Volume**: '') sell_volume total_volume) (\<lambda>sell_line.
       Inr ([ascii ''# Recent Trades for '' @ symbol @ [10],
             ascii ''| Time | Price | Quantity | Total | Side |'',
             ascii ''|------|-------|----------|-------|------|''] @
            rows @
            [[10] @ ascii ''## Trading Summary'',
             ascii ''- **Total Trades**: '' @ str_nat n,
             buy_line, sell_line] @
            (if n > 50 then [trades_note n] else [])))))))))"

definition format_trades_markdown :: "runtime \<Rightarrow> json \<Rightarrow> ustr \<Rightarrow> error + ustr" where
  "format_trades_markdown rt trades symbol =
     (if \<not> truthy trades
      then Inr (ascii ''No recent trades found for '' @ symbol @ ascii ''.'')
      else bind_exc (trades_lines rt trades symbol) (\<lambda>output. Inr (join [10] output)))"

text \<open>\<^verbatim>\<open>format_price_markdown\<close>.\<close>

definition price_line :: "runtime \<Rightarrow> json \<Rightarrow> error + ustr" where
  "price_line rt price_data =
     bind_exc (py_get price_data (ascii ''symbol'') (JStr (ascii ''Unknown''))) (\<lambda>symbol.
     bind_exc (py_get price_data (ascii ''price'') NA) (\<lambda>price.
       if price \<noteq> NA
       then bind_exc (py_float rt price) (\<lambda>x.
              Inr (ascii ''- **'' @ py_str rt symbol @ ascii ''**: $'' @
                   fmt_float rt (ascii '',.2f'') x))
       else Inr (ascii ''- **'' @ py_str rt symbol @ ascii ''**: N/A'')))"

definition format_price_markdown :: "runtime \<Rightarrow> json \<Rightarrow> error + ustr" where
  "format_price_markdown rt prices =
     (if \<not> truthy prices then Inr (ascii ''No price data found.'')
      else
        bind_exc (py_iter prices) (\<lambda>ps.
        bind_exc (map_exc (price_line rt) ps) (\<lambda>lines.
          Inr (join [10] ([ascii ''# Current Prices'' @ [10]] @ lines)))))"

section \<open>The remote data client\<close>

text \<open>
  The provider is a function from the request (URL and query parameters) to what the HTTP
  client observes: a timeout, another transport failure with its text, or a response with
  its status code and its body (\<open>None\<close> when the body is not JSON, so that
  \<^verbatim>\<open>response.json()\<close> raises). \<open>make_api_request\<close> returns its result together with the
  list of requests it sent.
\<close>

datatype http_outcome =
    TimeoutException
  | RequestError ustr
  | Response int "json option"

type_synonym request = "ustr \<times> (ustr \<times> json) list option"

type_synonym provider = "request \<Rightarrow> http_outcome"

definition response_json :: "json option \<Rightarrow> error + json" where
  "response_json body = (case body of None \<Rightarrow> Inl JSONDecodeError | Some j \<Rightarrow> Inr j)"

definition client_error :: "runtime \<Rightarrow> int \<Rightarrow> json \<Rightarrow> error + json" where
  "client_error rt status_code error_data =
     bind_exc (py_get error_data (ascii ''code'') (JStr (ascii ''Unknown''))) (\<lambda>error_code.
     bind_exc (py_get error_data (ascii ''msg'') (JStr (ascii ''Unknown error''))) (\<lambda>error_msg.
     bind_exc (case error_msg of
                 JStr s \<Rightarrow> Inr (sublist (ascii ''symbol'') (str_lower rt s))
               | _ \<Rightarrow> Inl AttributeError) (\<lambda>names_symbol.
       if names_symbol \<or> error_code = JInt (- 1121) \<or> error_code = JFloat (- 1121)
       then Inl (Exception (
              ascii ''Invalid symbol error: '' @ py_str rt error_msg @ [10, 10] @
              ascii ''To find valid trading pairs, use the '' @ [39] @
              ascii ''binance_search_symbols'' @ [39] @ ascii '' tool:'' @ [10] @
              ascii ''- Search by base asset: binance_search_symbols(base_asset='' @ [39] @
              ascii ''BTC'' @ [39] @ ascii '')'' @ [10] @
              ascii ''- Search by quote asset: binance_search_symbols(quote_asset='' @ [39] @
              ascii ''USDT'' @ [39] @ ascii '')'' @ [10] @
              ascii ''- Search by keyword: binance_search_symbols(search_term='' @ [39] @
              ascii ''DOGE'' @ [39] @ ascii '')''))
       else Inl (Exception (
              ascii ''API Error (HTTP '' @ str_int status_code @ ascii '', Code '' @
              py_str rt error_code @ ascii ''): '' @ py_str rt error_msg @ [10, 10] @
              ascii ''Please check your parameters and try again.'')))))"

definition api_outcome :: "runtime \<Rightarrow> http_outcome \<Rightarrow> error + json" where
  "api_outcome rt outcome =
     (case outcome of
        TimeoutException \<Rightarrow>
          Inl (Exception (
            ascii ''Request timeout after 10.0 seconds'' @ [10, 10] @
            ascii ''This could be due to network issues or high API load.'' @ [10] @
            ascii ''Action: Please try again.''))
      | RequestError msg \<Rightarrow>
          Inl (Exception (
            ascii ''Network error: '' @ msg @ [10, 10] @
            ascii ''Please check your internet connection and try again.''))
      | Response status_code body \<Rightarrow>
          if status_code = 200 then response_json body
          else if status_code = 429 then
            bind_exc (response_json body) (\<lambda>error_data.
            bind_exc (py_get error_data (ascii ''msg'') (JStr (ascii ''Unknown error''))) (\<lambda>msg.
              Inl (Exception (
                ascii ''Rate limit exceeded (HTTP 429)'' @ [10, 10] @
                ascii ''Binance rate limit: 6000 request weight per minute'' @ [10] @
                ascii ''Message: '' @ py_str rt msg @ [10, 10] @
                ascii ''Action: Wait 60 seconds before making more requests.'' @ [10] @
                ascii ''Tip: Use multiple symbols in one request instead of separate requests.''))))
          else if status_code \<ge> 400 \<and> status_code < 500 then
            bind_exc (response_json body) (\<lambda>error_data. client_error rt status_code error_data)
          else if status_code \<ge> 500 then
            Inl (Exception (
              ascii ''Binance server error (HTTP '' @ str_int status_code @ ascii '')'' @ [10, 10] @
              ascii ''This is a temporary issue on Binance'' @ [39] @ ascii ''s side.'' @ [10] @
              ascii ''Action: Please retry your request in a few moments.''))
          else
            Inl (Exception (ascii ''Unexpected HTTP status code: '' @ str_int status_code)))"

definition make_api_request ::
  "runtime \<Rightarrow> provider \<Rightarrow> ustr \<Rightarrow> (ustr \<times> json) list option \<Rightarrow> (error + json) \<times> request list" where
  "make_api_request rt net endpoint params =
     (let url = BINANCE_API_BASE @ endpoint;
          params' = (case params of
                       None \<Rightarrow> None
                     | Some ps \<Rightarrow> if ps \<noteq> [] then Some (filter (\<lambda>kv. snd kv \<noteq> JNull) ps)
                                 else Some ps)
      in (api_outcome rt (net (url, params')), [(url, params')]))"

section \<open>Input models\<close>

text \<open>
  The validated requests are records. \<open>new_...\<close> is what building the pydantic model does:
  the \<^verbatim>\<open>Field\<close> and \<^verbatim>\<open>Literal\<close> constraints, then the field validators; the result is the
  first failure in field order (pydantic reports the failures together, inside its own
  ValidationError). The framework builds the model from the caller's arguments before it
  calls the tool.
\<close>

text \<open>\<^verbatim>\<open>TickerInput.normalize_symbols\<close> (also of \<^verbatim>\<open>PriceInput\<close>) and
  \<^verbatim>\<open>OrderBookInput.normalize_symbol\<close> (also of \<^verbatim>\<open>KlinesInput\<close>, \<^verbatim>\<open>RecentTradesInput\<close>).\<close>

definition normalize_symbols :: "runtime \<Rightarrow> ustr list \<Rightarrow> ustr list" where
  "normalize_symbols rt v = map (\<lambda>s. strip (upper rt s)) v"

definition normalize_symbol :: "runtime \<Rightarrow> ustr \<Rightarrow> ustr" where
  "normalize_symbol rt v = strip (upper rt v)"

text \<open>\<^verbatim>\<open>OrderBookInput.validate_limit\<close>.\<close>

definition valid_limits :: "int list" where
  "valid_limits = [5, 10, 20, 50, 100, 500, 1000, 5000]"

definition validate_limit :: "int \<Rightarrow> error + int" where
  "validate_limit v =
     (if v \<notin> set valid_limits
      then Inl (ValueError (ascii ''Invalid limit '' @ str_int v @ ascii ''. Valid limits: '' @
                  join (ascii '', '') (map str_int valid_limits)))
      else Inr v)"

record TickerInput =
  response_format :: ustr
  symbols :: "ustr list"
  type :: ustr

record OrderBookInput =
  response_format :: ustr
  symbol :: ustr
  limit :: int

record KlinesInput =
  response_format :: ustr
  symbol :: ustr
  interval :: ustr
  limit :: int
  start_time :: "int option"
  end_time :: "int option"

record RecentTradesInput =
  response_format :: ustr
  symbol :: ustr
  limit :: int

record PriceInput =
  response_format :: ustr
  symbols :: "ustr list"

definition valid_format :: "ustr \<Rightarrow> bool" where
  "valid_format f \<longleftrightarrow> f = ascii ''markdown'' \<or> f = ascii ''json''"

definition VALID_INTERVALS :: "ustr list" where
  "VALID_INTERVALS = map ascii
     [''1s'', ''1m'', ''3m'', ''5m'', ''15m'', ''30m'', ''1h'', ''2h'', ''4h'', ''6h'', ''8h'',
      ''12h'', ''1d'', ''3d'', ''1w'', ''1M'']"

definition validate_interval :: "ustr \<Rightarrow> error + ustr" where
  "validate_interval v =
     (if v \<notin> set VALID_INTERVALS
      then Inl (ValueError (ascii ''Invalid interval '' @ [39] @ v @ [39] @
                  ascii ''. Valid intervals: '' @ join (ascii '', '') VALID_INTERVALS))
      else Inr v)"

definition new_TickerInput :: "runtime \<Rightarrow> ustr \<Rightarrow> ustr list \<Rightarrow> ustr \<Rightarrow> error + TickerInput" where
  "new_TickerInput rt fmt syms ty =
     (if \<not> valid_format fmt then Inl ValidationError
      else if length syms < 1 \<or> length syms > 100 then Inl ValidationError
      else if ty \<noteq> ascii ''FULL'' \<and> ty \<noteq> ascii ''MINI'' then Inl ValidationError
      else Inr \<lparr>TickerInput.response_format = fmt,
                TickerInput.symbols = normalize_symbols rt syms, type = ty\<rparr>)"

definition new_OrderBookInput :: "runtime \<Rightarrow> ustr \<Rightarrow> ustr \<Rightarrow> int \<Rightarrow> error + OrderBookInput" where
  "new_OrderBookInput rt fmt sym_name lmt =
     (if \<not> valid_format fmt then Inl ValidationError
      else bind_exc (validate_limit lmt) (\<lambda>l.
             Inr \<lparr>OrderBookInput.response_format = fmt,
                  OrderBookInput.symbol = normalize_symbol rt sym_name,
                  OrderBookInput.limit = l\<rparr>))"

definition new_KlinesInput ::
  "runtime \<Rightarrow> ustr \<Rightarrow> ustr \<Rightarrow> ustr \<Rightarrow> int \<Rightarrow> int option \<Rightarrow> int option \<Rightarrow> error + KlinesInput" where
  "new_KlinesInput rt fmt sym_name iv lmt st en =
     (if \<not> valid_format fmt then Inl ValidationError
      else bind_exc (validate_interval iv) (\<lambda>i.
             if lmt < 1 \<or> lmt > 1000 then Inl ValidationError
             else Inr \<lparr>KlinesInput.response_format = fmt,
                       KlinesInput.symbol = normalize_symbol rt sym_name,
                       interval = i, KlinesInput.limit = lmt,
                       start_time = st, end_time = en\<rparr>))"

definition new_RecentTradesInput ::
  "runtime \<Rightarrow> ustr \<Rightarrow> ustr \<Rightarrow> int \<Rightarrow> error + RecentTradesInput" where
  "new_RecentTradesInput rt fmt sym_name lmt =
     (if \<not> valid_format fmt then Inl ValidationError
      else if lmt < 1 \<or> lmt > 1000 then Inl ValidationError
      else Inr \<lparr>RecentTradesInput.response_format = fmt,
                RecentTradesInput.symbol = normalize_symbol rt sym_name,
                RecentTradesInput.limit = lmt\<rparr>)"

definition new_PriceInput :: "runtime \<Rightarrow> ustr \<Rightarrow> ustr list \<Rightarrow> error + PriceInput" where
  "new_PriceInput rt fmt syms =
     (if \<not> valid_format fmt then Inl ValidationError
      else if length syms < 1 \<or> length syms > 100 then Inl ValidationError
      else Inr \<lparr>PriceInput.response_format = fmt,
                PriceInput.symbols = normalize_symbols rt syms\<rparr>)"

record SearchSymbolsInput =
  response_format :: ustr
  base_asset :: "ustr option"
  quote_asset :: "ustr option"
  search_term :: "ustr option"
  status :: ustr

record ExchangeInfoInput =
  response_format :: ustr
  symbols :: "ustr list option"

text \<open>\<^verbatim>\<open>SearchSymbolsInput.uppercase_assets\<close> and \<^verbatim>\<open>ExchangeInfoInput.normalize_symbols\<close>.\<close>

definition uppercase_assets :: "runtime \<Rightarrow> ustr option \<Rightarrow> ustr option" where
  "uppercase_assets rt v =
     (case v of None \<Rightarrow> None | Some s \<Rightarrow> if s \<noteq> [] then Some (strip (upper rt s)) else None)"

definition normalize_symbols_opt :: "runtime \<Rightarrow> ustr list option \<Rightarrow> ustr list option" where
  "normalize_symbols_opt rt v =
     (case v of
        None \<Rightarrow> None
      | Some xs \<Rightarrow> if xs \<noteq> [] then Some (map (\<lambda>s. strip (upper rt s)) xs) else None)"

definition new_SearchSymbolsInput ::
  "runtime \<Rightarrow> ustr \<Rightarrow> ustr option \<Rightarrow> ustr option \<Rightarrow> ustr option \<Rightarrow> ustr \<Rightarrow>
   error + SearchSymbolsInput" where
  "new_SearchSymbolsInput rt fmt base quote term st =
     (if \<not> valid_format fmt then Inl ValidationError
      else if st \<noteq> ascii ''TRADING'' \<and> st \<noteq> ascii ''ALL'' then Inl ValidationError
      else Inr \<lparr>SearchSymbolsInput.response_format = fmt,
                base_asset = uppercase_assets rt base,
                quote_asset = uppercase_assets rt quote,
                search_term = uppercase_assets rt term, status = st\<rparr>)"

definition new_ExchangeInfoInput ::
  "runtime \<Rightarrow> ustr \<Rightarrow> ustr list option \<Rightarrow> error + ExchangeInfoInput" where
  "new_ExchangeInfoInput rt fmt syms =
     (if \<not> valid_format fmt then Inl ValidationError
      else Inr \<lparr>ExchangeInfoInput.response_format = fmt,
                ExchangeInfoInput.symbols = normalize_symbols_opt rt syms\<rparr>)"

section \<open>Tools\<close>

text \<open>
  Every tool is \<^verbatim>\<open>try: body except Exception as e: return f"<prefix>{str(e)}"\<close>. The
  \<open>_body\<close> function is the \<^verbatim>\<open>try\<close> block, with the requests it sent; \<open>catch_exc\<close> is the
  \<^verbatim>\<open>except\<close> clause.
\<close>

definition catch_exc :: "runtime \<Rightarrow> ustr \<Rightarrow> error + ustr \<Rightarrow> ustr" where
  "catch_exc rt prefix_text body =
     (case body of Inl e \<Rightarrow> prefix_text @ str_exc rt e | Inr s \<Rightarrow> s)"

text \<open>\<^verbatim>\<open>'["' + '","'.join(params.symbols) + '"]'\<close>.\<close>

definition symbols_param :: "ustr list \<Rightarrow> ustr" where
  "symbols_param syms = [91, 34] @ join [34, 44, 34] syms @ [34, 93]"

text \<open>\<^verbatim>\<open>isinstance(data, list)\<close> and \<^verbatim>\<open>if not isinstance(data, list): data = [data]\<close>.\<close>

fun is_list :: "json \<Rightarrow> bool" where
  "is_list (JArr xs) = True"
| "is_list _ = False"

definition ensure_list :: "json \<Rightarrow> json" where
  "ensure_list data = (if \<not> is_list data then JArr [data] else data)"

subsection \<open>\<^verbatim>\<open>binance_get_ticker\<close>\<close>

definition ticker_body :: "runtime \<Rightarrow> provider \<Rightarrow> TickerInput \<Rightarrow> (error + ustr) \<times> request list" where
  "ticker_body rt net params =
     (case make_api_request rt net (ascii ''/api/v3/ticker/24hr'')
             (Some [(ascii ''symbols'', JStr (symbols_param (TickerInput.symbols params))),
                    (ascii ''type'', JStr (type params))]) of
        (response, requests) \<Rightarrow>
          (bind_exc response (\<lambda>data0.
             let data = ensure_list data0
             in bind_exc (py_len data) (\<lambda>n.
                  if TickerInput.response_format params = ascii ''json''
                  then Inr (json_dumps rt (JObj [(ascii ''data'', data),
                                                 (ascii ''count'', JInt (int n)),
                                                 (ascii ''type'', JStr (type params))]))
                  else bind_exc (truncate_response data
                                   (\<lambda>d. format_ticker_markdown rt d (type params))
                                   (Some (int n))) (\<lambda>(formatted, truncated, msg).
                         Inr formatted))),
           requests))"

definition binance_get_ticker :: "runtime \<Rightarrow> provider \<Rightarrow> TickerInput \<Rightarrow> ustr \<times> request list" where
  "binance_get_ticker rt net params =
     (case ticker_body rt net params of
        (body, requests) \<Rightarrow> (catch_exc rt (ascii ''Error fetching ticker data: '') body, requests))"

subsection \<open>\<^verbatim>\<open>binance_search_symbols\<close>\<close>

text \<open>\<open>keep_symbol\<close> is the body of the filter loop: False where the source continues.\<close>

definition keep_symbol :: "SearchSymbolsInput \<Rightarrow> json \<Rightarrow> error + bool" where
  "keep_symbol params symb =
     bind_exc (if status params = ascii ''TRADING''
               then bind_exc (py_get symb (ascii ''status'') JNull) (\<lambda>s.
                      Inr (s \<noteq> JStr (ascii ''TRADING'')))
               else Inr False) (\<lambda>skip1.
     if skip1 then Inr False else
     bind_exc (case base_asset params of
                 Some b \<Rightarrow>
                   if b = [] then Inr False
                   else bind_exc (py_get symb (ascii ''baseAsset'') JNull) (\<lambda>s.
                          Inr (s \<noteq> JStr b))
               | None \<Rightarrow> Inr False) (\<lambda>skip2.
     if skip2 then Inr False else
     bind_exc (case quote_asset params of
                 Some q \<Rightarrow>
                   if q = [] then Inr False
                   else bind_exc (py_get symb (ascii ''quoteAsset'') JNull) (\<lambda>s.
                          Inr (s \<noteq> JStr q))
               | None \<Rightarrow> Inr False) (\<lambda>skip3.
     if skip3 then Inr False else
     bind_exc (case search_term params of
                 Some t \<Rightarrow>
                   if t = [] then Inr False
                   else bind_exc (py_get symb (ascii ''symbol'') (JStr [])) (\<lambda>symbol_name.
                        bind_exc (py_contains t symbol_name) (\<lambda>found. Inr (\<not> found)))
               | None \<Rightarrow> Inr False) (\<lambda>skip4.
     Inr (\<not> skip4)))))"

fun filter_exc :: "('a \<Rightarrow> error + bool) \<Rightarrow> 'a list \<Rightarrow> error + 'a list" where
  "filter_exc f [] = Inr []"
| "filter_exc f (x # xs) =
     bind_exc (f x) (\<lambda>keep. bind_exc (filter_exc f xs) (\<lambda>ys.
       Inr (if keep then x # ys else ys)))"

definition opt_json :: "ustr option \<Rightarrow> json" where
  "opt_json v = (case v of None \<Rightarrow> JNull | Some s \<Rightarrow> JStr s)"

definition search_symbols_body ::
  "runtime \<Rightarrow> provider \<Rightarrow> SearchSymbolsInput \<Rightarrow> (error + ustr) \<times> request list" where
  "search_symbols_body rt net params =
     (case make_api_request rt net (ascii ''/api/v3/exchangeInfo'') None of
        (response, requests) \<Rightarrow>
          (bind_exc response (\<lambda>data.
           bind_exc (py_get data (ascii ''symbols'') (JArr [])) (\<lambda>syms.
           bind_exc (py_iter syms) (\<lambda>items.
           bind_exc (filter_exc (keep_symbol params) items) (\<lambda>filtered_symbols.
             let n = length filtered_symbols
             in
             if SearchSymbolsInput.response_format params = ascii ''json''
             then
               (let result = json_dumps rt (JObj
                      [(ascii ''symbols'', JArr filtered_symbols),
                       (ascii ''count'', JInt (int n)),
                       (ascii ''filters'', JObj
                          [(ascii ''base_asset'', opt_json (base_asset params)),
                           (ascii ''quote_asset'', opt_json (quote_asset params)),
                           (ascii ''search_term'', opt_json (search_term params)),
                           (ascii ''status'', JStr (status params))])])
                in if length result > CHARACTER_LIMIT
                   then
                     (let truncated_count = max 10 (n div 2)
                      in Inr (json_dumps rt (JObj
                           [(ascii ''symbols'', JArr (take truncated_count filtered_symbols)),
                            (ascii ''count'', JInt (int truncated_count)),
                            (ascii ''total_matches'', JInt (int n)),
                            (ascii ''truncated'', JBool True),
                            (ascii ''message'', JStr (ascii ''Showing '' @ str_nat truncated_count @
                               ascii '' of '' @ str_nat n @
                               ascii '' results. Add more specific filters.''))])))
                   else Inr result)
             else bind_exc (truncate_response (JArr filtered_symbols)
                              (format_symbols_markdown rt) (Some (int n)))
                    (\<lambda>(formatted, truncated, msg). Inr formatted))))),
           requests))"

definition binance_search_symbols ::
  "runtime \<Rightarrow> provider \<Rightarrow> SearchSymbolsInput \<Rightarrow> ustr \<times> request list" where
  "binance_search_symbols rt net params =
     (case search_symbols_body rt net params of
        (body, requests) \<Rightarrow> (catch_exc rt (ascii ''Error searching symbols: '') body, requests))"

subsection \<open>\<^verbatim>\<open>binance_get_order_book\<close>\<close>

definition order_book_body ::
  "runtime \<Rightarrow> provider \<Rightarrow> OrderBookInput \<Rightarrow> (error + ustr) \<times> request list" where
  "order_book_body rt net params =
     (case make_api_request rt net (ascii ''/api/v3/depth'')
             (Some [(ascii ''symbol'', JStr (OrderBookInput.symbol params)),
                    (ascii ''limit'', JInt (OrderBookInput.limit params))]) of
        (response, requests) \<Rightarrow>
          (bind_exc response (\<lambda>data.
             if OrderBookInput.response_format params = ascii ''json''
             then Inr (json_dumps rt data)
             else format_order_book_markdown rt data (OrderBookInput.symbol params)),
           requests))"

definition binance_get_order_book ::
  "runtime \<Rightarrow> provider \<Rightarrow> OrderBookInput \<Rightarrow> ustr \<times> request list" where
  "binance_get_order_book rt net params =
     (case order_book_body rt net params of
        (body, requests) \<Rightarrow> (catch_exc rt (ascii ''Error fetching order book: '') body, requests))"

subsection \<open>\<^verbatim>\<open>binance_get_klines\<close>\<close>

definition kline_keys :: "ustr list" where
  "kline_keys = map ascii
     [''openTime'', ''open'', ''high'', ''low'', ''close'', ''volume'', ''closeTime'',
      ''quoteVolume'', ''trades'', ''takerBuyBaseVolume'', ''takerBuyQuoteVolume'']"

definition kline_json :: "json \<Rightarrow> error + json" where
  "kline_json kline =
     bind_exc (map_exc (py_index kline) [0, 1, 2, 3, 4, 5, 6, 7, 8, 9, 10]) (\<lambda>vs.
       Inr (JObj (zip kline_keys vs)))"

definition time_param :: "ustr \<Rightarrow> int option \<Rightarrow> (ustr \<times> json) list" where
  "time_param name v = (case v of None \<Rightarrow> [] | Some t \<Rightarrow> if t \<noteq> 0 then [(name, JInt t)] else [])"

definition klines_body :: "runtime \<Rightarrow> provider \<Rightarrow> KlinesInput \<Rightarrow> (error + ustr) \<times> request list" where
  "klines_body rt net params =
     (case make_api_request rt net (ascii ''/api/v3/klines'')
             (Some ([(ascii ''symbol'', JStr (KlinesInput.symbol params)),
                     (ascii ''interval'', JStr (interval params)),
                     (ascii ''limit'', JInt (KlinesInput.limit params))] @
                    time_param (ascii ''startTime'') (start_time params) @
                    time_param (ascii ''endTime'') (end_time params))) of
        (response, requests) \<Rightarrow>
          (bind_exc response (\<lambda>data.
             if KlinesInput.response_format params = ascii ''json''
             then bind_exc (py_iter data) (\<lambda>items.
                  bind_exc (map_exc kline_json items) (\<lambda>formatted_klines.
                    Inr (json_dumps rt (JObj
                      [(ascii ''symbol'', JStr (KlinesInput.symbol params)),
                       (ascii ''interval'', JStr (interval params)),
                       (ascii ''klines'', JArr formatted_klines),
                       (ascii ''count'', JInt (int (length formatted_klines)))]))))
             else format_klines_markdown rt data (KlinesInput.symbol params) (interval params)),
           requests))"

definition binance_get_klines :: "runtime \<Rightarrow> provider \<Rightarrow> KlinesInput \<Rightarrow> ustr \<times> request list" where
  "binance_get_klines rt net params =
     (case klines_body rt net params of
        (body, requests) \<Rightarrow> (catch_exc rt (ascii ''Error fetching klines: '') body, requests))"

subsection \<open>\<^verbatim>\<open>binance_get_recent_trades\<close>\<close>

definition recent_trades_body ::
  "runtime \<Rightarrow> provider \<Rightarrow> RecentTradesInput \<Rightarrow> (error + ustr) \<times> request list" where
  "recent_trades_body rt net params =
     (case make_api_request rt net (ascii ''/api/v3/trades'')
             (Some [(ascii ''symbol'', JStr (RecentTradesInput.symbol params)),
                    (ascii ''limit'', JInt (RecentTradesInput.limit params))]) of
        (response, requests) \<Rightarrow>
          (bind_exc response (\<lambda>data.
             if RecentTradesInput.response_format params = ascii ''json''
             then bind_exc (py_len data) (\<lambda>n.
                    Inr (json_dumps rt (JObj
                      [(ascii ''symbol'', JStr (RecentTradesInput.symbol params)),
                       (ascii ''trades'', data),
                       (ascii ''count'', JInt (int n))])))
             else format_trades_markdown rt data (RecentTradesInput.symbol params)),
           requests))"

definition binance_get_recent_trades ::
  "runtime \<Rightarrow> provider \<Rightarrow> RecentTradesInput \<Rightarrow> ustr \<times> request list" where
  "binance_get_recent_trades rt net params =
     (case recent_trades_body rt net params of
        (body, requests) \<Rightarrow>
          (catch_exc rt (ascii ''Error fetching recent trades: '') body, requests))"

subsection \<open>\<^verbatim>\<open>binance_get_exchange_info\<close>\<close>

definition rate_limit_line :: "runtime \<Rightarrow> json \<Rightarrow> error + ustr" where
  "rate_limit_line rt lmt =
     bind_exc (py_get lmt (ascii ''rateLimitType'') (JStr (ascii ''Unknown''))) (\<lambda>limit_type.
     bind_exc (py_get lmt (ascii ''interval'') (JStr [])) (\<lambda>iv.
     bind_exc (py_get lmt (ascii ''intervalNum'') (JStr [])) (\<lambda>interval_num.
     bind_exc (py_get lmt (ascii ''limit'') (JStr [])) (\<lambda>limit_val.
       Inr (ascii ''- **'' @ py_str rt limit_type @ ascii ''**: '' @ py_str rt limit_val @
            ascii '' per '' @ py_str rt interval_num @ ascii '' '' @ py_str rt iv)))))"

definition exchange_info_notice :: ustr where
  "exchange_info_notice =
     [10, 10, 9888, 65039] @
     ascii '' Response truncated. Use symbols parameter for specific pairs.''"

text \<open>The last statements of the markdown branch: the check of the joined text.\<close>

definition exchange_info_limit :: "ustr \<Rightarrow> ustr" where
  "exchange_info_limit result =
     (if length result > CHARACTER_LIMIT
      then take CHARACTER_LIMIT result @ exchange_info_notice
      else result)"

definition exchange_info_markdown :: "runtime \<Rightarrow> ExchangeInfoInput \<Rightarrow> json \<Rightarrow> error + ustr" where
  "exchange_info_markdown rt params data =
     bind_exc (py_get data (ascii ''timezone'') NA) (\<lambda>timezone.
     bind_exc (py_get data (ascii ''serverTime'') (JInt 0)) (\<lambda>server_time.
     bind_exc (format_timestamp rt server_time) (\<lambda>server_time_text.
     bind_exc (py_get data (ascii ''rateLimits'') (JArr [])) (\<lambda>rate_limits.
     bind_exc (if truthy rate_limits
               then bind_exc (py_iter rate_limits) (\<lambda>items.
                    bind_exc (map_exc (rate_limit_line rt) items) (\<lambda>lines.
                      Inr ([ascii ''## Rate Limits''] @ lines @ [[]])))
               else Inr []) (\<lambda>rate_lines.
     bind_exc (py_get data (ascii ''symbols'') (JArr [])) (\<lambda>syms.
     bind_exc (py_len syms) (\<lambda>n.
     bind_exc
       (if ExchangeInfoInput.symbols params \<noteq> None \<and> ExchangeInfoInput.symbols params \<noteq> Some []
        then bind_exc (format_symbols_markdown rt syms) (\<lambda>formatted. Inr [formatted])
        else if n > 100
        then Inr [ascii ''*Too many symbols to display ('' @ str_nat n @ ascii '' total).*'',
                  ascii ''*Use '' @ [39] @ ascii ''symbols'' @ [39] @
                  ascii '' parameter to get details for specific pairs.*'',
                  [10] @ ascii ''Example: binance_get_exchange_info(symbols=['' @ [39] @
                  ascii ''BTCUSDT'' @ [39] @ ascii '', '' @ [39] @ ascii ''ETHUSDT'' @ [39] @
                  ascii ''])'']
        else bind_exc (py_slice 50 syms) (\<lambda>top.
             bind_exc (format_symbols_markdown rt top) (\<lambda>formatted.
               Inr ([formatted] @
                    (if n > 50
                     then [[10] @ ascii ''*Showing first 50 of '' @ str_nat n @ ascii '' symbols.*'']
                     else []))))) (\<lambda>pair_lines.
       Inr (exchange_info_limit (join [10]
              ([ascii ''# Binance Exchange Information'' @ [10],
                ascii ''## General Information'',
                ascii ''- **Timezone**: '' @ py_str rt timezone,
                ascii ''- **Server Time**: '' @ server_time_text @ [10]] @
               rate_lines @
               [ascii ''## Trading Pairs ('' @ str_nat n @ ascii '' total)'' @ [10]] @
               pair_lines)))))))))))"

definition exchange_info_json :: "runtime \<Rightarrow> json \<Rightarrow> error + ustr" where
  "exchange_info_json rt data =
     (let result = json_dumps rt data
      in if length result > CHARACTER_LIMIT
         then
           bind_exc (py_get data (ascii ''timezone'') JNull) (\<lambda>timezone.
           bind_exc (py_get data (ascii ''serverTime'') JNull) (\<lambda>server_time.
           bind_exc (py_get data (ascii ''rateLimits'') (JArr [])) (\<lambda>rate_limits.
           bind_exc (py_get data (ascii ''symbols'') (JArr [])) (\<lambda>syms.
           bind_exc (py_slice 50 syms) (\<lambda>top.
             Inr (json_dumps rt (JObj
               [(ascii ''timezone'', timezone),
                (ascii ''serverTime'', server_time),
                (ascii ''rateLimits'', rate_limits),
                (ascii ''symbols'', top),
                (ascii ''truncated'', JBool True),
                (ascii ''message'', JStr (ascii
                   ''Response truncated. Specify symbols parameter for specific pairs.''))])))))))
         else Inr result)"

definition exchange_info_body ::
  "runtime \<Rightarrow> provider \<Rightarrow> ExchangeInfoInput \<Rightarrow> (error + ustr) \<times> request list" where
  "exchange_info_body rt net params =
     (case make_api_request rt net (ascii ''/api/v3/exchangeInfo'')
             (Some (case ExchangeInfoInput.symbols params of
                      None \<Rightarrow> []
                    | Some syms \<Rightarrow>
                        if syms \<noteq> [] then [(ascii ''symbols'', JStr (symbols_param syms))]
                        else [])) of
        (response, requests) \<Rightarrow>
          (bind_exc response (\<lambda>data.
             if ExchangeInfoInput.response_format params = ascii ''json''
             then exchange_info_json rt data
             else exchange_info_markdown rt params data),
           requests))"

definition binance_get_exchange_info ::
  "runtime \<Rightarrow> provider \<Rightarrow> ExchangeInfoInput \<Rightarrow> ustr \<times> request list" where
  "binance_get_exchange_info rt net params =
     (case exchange_info_body rt net params of
        (body, requests) \<Rightarrow>
          (catch_exc rt (ascii ''Error fetching exchange info: '') body, requests))"

subsection \<open>\<^verbatim>\<open>binance_get_price\<close>\<close>

definition price_body :: "runtime \<Rightarrow> provider \<Rightarrow> PriceInput \<Rightarrow> (error + ustr) \<times> request list" where
  "price_body rt net params =
     (case make_api_request rt net (ascii ''/api/v3/ticker/price'')
             (Some [(ascii ''symbols'', JStr (symbols_param (PriceInput.symbols params)))]) of
        (response, requests) \<Rightarrow>
          (bind_exc response (\<lambda>data0.
             let data = ensure_list data0
             in if PriceInput.response_format params = ascii ''json''
                then bind_exc (py_len data) (\<lambda>n.
                       Inr (json_dumps rt (JObj [(ascii ''prices'', data),
                                                 (ascii ''count'', JInt (int n))])))
                else format_price_markdown rt data),
           requests))"

definition binance_get_price :: "runtime \<Rightarrow> provider \<Rightarrow> PriceInput \<Rightarrow> ustr \<times> request list" where
  "binance_get_price rt net params =
     (case price_body rt net params of
        (body, requests) \<Rightarrow> (catch_exc rt (ascii ''Error fetching prices: '') body, requests))"

subsection \<open>\<^verbatim>\<open>binance_get_best_price\<close>\<close>

text \<open>
  \<open>best_price_spread\<close> is the spread and the spread percentage the loop computes from the
  best bid and the best ask; \<open>best_price_lines\<close> is the body of the loop.
\<close>

definition best_price_spread :: "rat \<Rightarrow> rat \<Rightarrow> error + rat \<times> rat" where
  "best_price_spread bid_price ask_price =
     (let spread = ask_price - bid_price
      in bind_exc (if bid_price > 0
                   then bind_exc (py_div spread bid_price) (\<lambda>r. Inr (r * 100))
                   else Inr 0) (\<lambda>spread_pct.
           Inr (spread, spread_pct)))"

definition best_price_lines :: "runtime \<Rightarrow> json \<Rightarrow> error + ustr list" where
  "best_price_lines rt ticker =
     bind_exc (py_get ticker (ascii ''symbol'') (JStr (ascii ''Unknown''))) (\<lambda>symbol.
     bind_exc (py_get ticker (ascii ''bidPrice'') (JInt 0)) (\<lambda>v1.
     bind_exc (py_float rt v1) (\<lambda>bid_price.
     bind_exc (py_get ticker (ascii ''bidQty'') (JInt 0)) (\<lambda>v2.
     bind_exc (py_float rt v2) (\<lambda>bid_qty.
     bind_exc (py_get ticker (ascii ''askPrice'') (JInt 0)) (\<lambda>v3.
     bind_exc (py_float rt v3) (\<lambda>ask_price.
     bind_exc (py_get ticker (ascii ''askQty'') (JInt 0)) (\<lambda>v4.
     bind_exc (py_float rt v4) (\<lambda>ask_qty.
     bind_exc (best_price_spread bid_price ask_price) (\<lambda>(spread, spread_pct).
       Inr [ascii ''## '' @ py_str rt symbol,
            ascii ''- **Best Bid**: $'' @ fmt_float rt (ascii '',.2f'') bid_price @
            ascii '' (Qty: '' @ fmt_float rt (ascii '',.6f'') bid_qty @ ascii '')'',
            ascii ''- **Best Ask**: $'' @ fmt_float rt (ascii '',.2f'') ask_price @
            ascii '' (Qty: '' @ fmt_float rt (ascii '',.6f'') ask_qty @ ascii '')'',
            ascii ''- **Spread**: $'' @ fmt_float rt (ascii '',.2f'') spread @
            ascii '' ('' @ fmt_float rt (ascii ''.3f'') spread_pct @ ascii ''%)'',
            []]))))))))))"

definition best_price_markdown :: "runtime \<Rightarrow> json \<Rightarrow> error + ustr" where
  "best_price_markdown rt data =
     bind_exc (py_iter data) (\<lambda>tickers.
     bind_exc (map_exc (best_price_lines rt) tickers) (\<lambda>blocks.
       Inr (join [10] ([ascii ''# Best Bid/Ask Prices'' @ [10]] @ concat blocks))))"

definition best_price_body :: "runtime \<Rightarrow> provider \<Rightarrow> PriceInput \<Rightarrow> (error + ustr) \<times> request list" where
  "best_price_body rt net params =
     (case make_api_request rt net (ascii ''/api/v3/ticker/bookTicker'')
             (Some [(ascii ''symbols'', JStr (symbols_param (PriceInput.symbols params)))]) of
        (response, requests) \<Rightarrow>
          (bind_exc response (\<lambda>data0.
             let data = ensure_list data0
             in if PriceInput.response_format params = ascii ''json''
                then bind_exc (py_len data) (\<lambda>n.
                       Inr (json_dumps rt (JObj [(ascii ''tickers'', data),
                                                 (ascii ''count'', JInt (int n))])))
                else best_price_markdown rt data),
           requests))"

definition binance_get_best_price ::
  "runtime \<Rightarrow> provider \<Rightarrow> PriceInput \<Rightarrow> ustr \<times> request list" where
  "binance_get_best_price rt net params =
     (case best_price_body rt net params of
        (body, requests) \<Rightarrow>
          (catch_exc rt (ascii ''Error fetching best prices: '') body, requests))"

subsection \<open>Calling a tool\<close>

text \<open>
  A call builds the input model from the caller's arguments and then runs the tool with it.
  \<open>Inl e\<close>: the exception \<open>e\<close> left the call (it was raised while the model was built,
  outside the tool's \<^verbatim>\<open>try\<close>); \<open>Inr s\<close>: the tool returned the string \<open>s\<close>. The second
  component is the list of requests sent to the provider.
\<close>

definition call_get_order_book ::
  "runtime \<Rightarrow> provider \<Rightarrow> ustr \<Rightarrow> ustr \<Rightarrow> int \<Rightarrow> (error + ustr) \<times> request list" where
  "call_get_order_book rt net fmt sym_name lmt =
     (case new_OrderBookInput rt fmt sym_name lmt of
        Inl e \<Rightarrow> (Inl e, [])
      | Inr params \<Rightarrow>
          (case binance_get_order_book rt net params of (s, requests) \<Rightarrow> (Inr s, requests)))"

definition call_get_ticker ::
  "runtime \<Rightarrow> provider \<Rightarrow> ustr \<Rightarrow> ustr list \<Rightarrow> ustr \<Rightarrow> (error + ustr) \<times> request list" where
  "call_get_ticker rt net fmt syms ty =
     (case new_TickerInput rt fmt syms ty of
        Inl e \<Rightarrow> (Inl e, [])
      | Inr params \<Rightarrow>
          (case binance_get_ticker rt net params of (s, requests) \<Rightarrow> (Inr s, requests)))"

section \<open>A reference runtime\<close>

text \<open>
  The concrete evaluations below need one runtime. \<open>rt0\<close> agrees with CPython on what they
  read: the case of ASCII letters, \<^verbatim>\<open>float\<close> on a plain decimal numeral, the fixed-point
  formats \<^verbatim>\<open>.Nf\<close> with their \<^verbatim>\<open>,\<close> and \<^verbatim>\<open>+\<close> options (round-half-even on the exact
  value), and \<^verbatim>\<open>strftime\<close> in a process whose local zone is UTC. Its last three fields
  stand for texts that no evaluation below reads.
\<close>

definition ascii_upper :: "nat \<Rightarrow> ustr" where
  "ascii_upper c = (if 97 \<le> c \<and> c \<le> 122 then [c - 32] else [c])"

definition ascii_lower :: "ustr \<Rightarrow> ustr" where
  "ascii_lower s = map (\<lambda>c. if 65 \<le> c \<and> c \<le> 90 then c + 32 else c) s"

definition is_digit :: "nat \<Rightarrow> bool" where
  "is_digit c \<longleftrightarrow> 48 \<le> c \<and> c \<le> 57"

definition nat_of_digits :: "ustr \<Rightarrow> nat" where
  "nat_of_digits s = foldl (\<lambda>a c. 10 * a + (c - 48)) 0 s"

definition parse_decimal :: "ustr \<Rightarrow> rat option" where
  "parse_decimal s =
     (let t = strip s;
          neg = (take 1 t = [45]);
          body = (if take 1 t = [45] \<or> take 1 t = [43] then drop 1 t else t);
          ip = takeWhile is_digit body;
          rest = dropWhile is_digit body;
          fp = (if take 1 rest = [46] then drop 1 rest else rest)
      in if ip @ fp \<noteq> [] \<and> list_all is_digit fp
         then Some ((if neg then - 1 else 1) *
                    (of_nat (nat_of_digits (ip @ fp)) / 10 ^ length fp))
         else None)"

definition round_half_even :: "rat \<Rightarrow> int" where
  "round_half_even y =
     (let f = \<lfloor>y\<rfloor>; r = y - of_int f
      in if r < 1 / 2 then f else if r > 1 / 2 then f + 1 else if even f then f else f + 1)"

definition fmt_fixed :: "bool \<Rightarrow> bool \<Rightarrow> nat \<Rightarrow> rat \<Rightarrow> ustr" where
  "fmt_fixed with_sign comma d x =
     (let n = nat (round_half_even (\<bar>x\<bar> * 10 ^ d));
          ip = n div 10 ^ d;
          fp = str_nat (n mod 10 ^ d)
      in (if x < 0 then [45] else if with_sign then [43] else []) @
         (if comma then fmt_thousands ip else str_nat ip) @
         (if d = 0 then [] else [46] @ replicate (d - length fp) 48 @ fp))"

definition fmt_spec :: "ustr \<Rightarrow> rat \<Rightarrow> ustr" where
  "fmt_spec spec x =
     fmt_fixed (take 1 spec = [43]) (44 \<in> set spec) (nat_of_digits (filter is_digit spec)) x"

definition two_digits :: "int \<Rightarrow> ustr" where
  "two_digits i = (if i < 10 then [48] else []) @ str_int i"

definition strftime_utc :: "rat \<Rightarrow> error + ustr" where
  "strftime_utc t =
     (let s = round_half_even (t * 1000000) div 1000000;
          z = s div 86400 + 719468;
          sod = s mod 86400;
          era = z div 146097;
          doe = z - era * 146097;
          yoe = (doe - doe div 1460 + doe div 36524 - doe div 146096) div 365;
          doy = doe - (365 * yoe + yoe div 4 - yoe div 100);
          mp = (5 * doy + 2) div 153;
          d = doy - (153 * mp + 2) div 5 + 1;
          m = (if mp < 10 then mp + 3 else mp - 9);
          y = yoe + era * 400 + (if m \<le> 2 then 1 else 0)
      in if y < 1 \<or> y > 9999 then Inl (ValueError (ascii ''year '' @ str_int y @ ascii '' is out of range''))
         else Inr (replicate (4 - length (str_int y)) 48 @ str_int y @ [45] @ two_digits m @ [45] @
                   two_digits d @ [32] @ two_digits (sod div 3600) @ [58] @
                   two_digits (sod mod 3600 div 60) @ [58] @ two_digits (sod mod 60) @
                   ascii '' UTC''))"

definition rt0 :: runtime where
  "rt0 = \<lparr>upper_cp = ascii_upper,
          str_lower = ascii_lower,
          str_to_float = parse_decimal,
          fmt_float = fmt_spec,
          strftime_local = strftime_utc,
          repr_value = (\<lambda>v. case v of JStr s \<Rightarrow> [39] @ s @ [39] | _ \<Rightarrow> ascii ''...''),
          json_dumps = (\<lambda>v. ascii ''...''),
          exc_text = (\<lambda>e. ascii ''...'')\<rparr>"

section \<open>Notions used in the statements\<close>






text \<open>
  A provider that answers every request with status 200 and the body \<open>d\<close>; the spec's
  price scenario; an order-book request.
\<close>

definition respond :: "json \<Rightarrow> provider" where
  "respond d = (\<lambda>req. Response 200 (Some d))"

definition price_object0 :: json where
  "price_object0 = JObj [(ascii ''symbol'', JStr (ascii ''BTCUSDT'')),
                         (ascii ''price'', JStr (ascii ''50000.12''))]"

definition price_request0 :: PriceInput where
  "price_request0 =
     \<lparr>PriceInput.response_format = ascii ''markdown'',
      PriceInput.symbols = [ascii ''BTCUSDT'']\<rparr>"

definition order_book_request0 :: OrderBookInput where
  "order_book_request0 =
     \<lparr>OrderBookInput.response_format = ascii ''markdown'',
      OrderBookInput.symbol = ascii ''BTCUSDT'', OrderBookInput.limit = 5\<rparr>"

text \<open>
  \<open>recovers rt prefix body result\<close>: the result is the body's string when the body returns
  one, and the prefix followed by the exception's text when the body raises.
\<close>

definition recovers :: "runtime \<Rightarrow> ustr \<Rightarrow> error + ustr \<Rightarrow> ustr \<Rightarrow> bool" where
  "recovers rt prefix_text body result \<longleftrightarrow>
     (\<forall>s. body = Inr s \<longrightarrow> result = s) \<and>
     (\<forall>e. body = Inl e \<longrightarrow> result = prefix_text @ str_exc rt e)"

text \<open>
  An order book whose best bid is priced at zero; two candles with negative closes; two
  candles whose first close is zero; a candle row of five entries; a trade without \<^verbatim>\<open>qty\<close>; one well-formed trade.
\<close>

definition zero_bid_book :: json where
  "zero_bid_book =
     JObj [(ascii ''lastUpdateId'', JInt 1),
           (ascii ''bids'', JArr [JArr [JStr (ascii ''0''), JStr (ascii ''1'')]]),
           (ascii ''asks'', JArr [JArr [JStr (ascii ''1''), JStr (ascii ''1'')]])]"

definition falling_klines :: json where
  "falling_klines =
     JArr [JArr [JInt 0, JStr (ascii ''1''), JStr (ascii ''1''), JStr (ascii ''1''),
                 JStr (ascii ''-1''), JStr (ascii ''1'')],
           JArr [JInt 0, JStr (ascii ''1''), JStr (ascii ''1''), JStr (ascii ''1''),
                 JStr (ascii ''-2''), JStr (ascii ''1'')]]"

definition zero_close_klines :: json where
  "zero_close_klines =
     JArr [JArr [JInt 0, JStr (ascii ''1''), JStr (ascii ''1''), JStr (ascii ''1''),
                 JStr (ascii ''0''), JStr (ascii ''1'')],
           JArr [JInt 0, JStr (ascii ''1''), JStr (ascii ''1''), JStr (ascii ''1''),
                 JStr (ascii ''1''), JStr (ascii ''1'')]]"


definition trade_without_qty :: json where
  "trade_without_qty =
     JObj [(ascii ''time'', JInt 0), (ascii ''price'', JStr (ascii ''1'')),
           (ascii ''isBuyerMaker'', JBool False)]"





section \<open>The reference runtime, evaluated\<close>

lemma rt0_simps:
  "upper_cp rt0 = ascii_upper" "str_lower rt0 = ascii_lower" "str_to_float rt0 = parse_decimal"
  "fmt_float rt0 = fmt_spec" "strftime_local rt0 = strftime_utc"
  by (simp_all add: rt0_def)



section \<open>Symbol normalization\<close>













section \<open>Depth validation\<close>

lemma valid_limits_text:
  "join (ascii '', '') (map str_int valid_limits) = ascii ''5, 10, 20, 50, 100, 500, 1000, 5000''"
  by (simp add: valid_limits_def str_int_def str_nat.simps ascii_def)

text \<open>
  C7. The depth validator accepts exactly the eight listed limits. Any other integer is
  refused with a message that lists all eight, and a call of the order-book tool with such
  a limit ends with an exception before any request is sent.
\<close>

theorem validate_limit_accepts:
  "(validate_limit v = Inr v \<longleftrightarrow> v \<in> {5, 10, 20, 50, 100, 500, 1000, 5000}) \<and>
   (v \<notin> {5, 10, 20, 50, 100, 500, 1000, 5000} \<longrightarrow>
      validate_limit v =
        Inl (ValueError (ascii ''Invalid limit '' @ str_int v @
               ascii ''. Valid limits: 5, 10, 20, 50, 100, 500, 1000, 5000'')) \<and>
      (\<exists>e. call_get_order_book rt net fmt sym_name v = (Inl e, [])))"
proof -
  have set_eq: "set valid_limits = {5, 10, 20, 50, 100, 500, 1000, 5000}"
    by (auto simp: valid_limits_def)
  have tail_text: "ascii ''. Valid limits: '' @ ascii ''5, 10, 20, 50, 100, 500, 1000, 5000'' =
             ascii ''. Valid limits: 5, 10, 20, 50, 100, 500, 1000, 5000''"
    by (simp add: ascii_def)
  show ?thesis
    unfolding validate_limit_def set_eq valid_limits_text call_get_order_book_def
      new_OrderBookInput_def bind_exc_def
    by (auto simp: tail_text)
qed

theorem validate_limit_accepts_witness:
  "validate_limit 5 = Inr 5 \<and>
   validate_limit 15 =
     Inl (ValueError (ascii ''Invalid limit 15. Valid limits: 5, 10, 20, 50, 100, 500, 1000, 5000'')) \<and>
   call_get_order_book rt0 (\<lambda>req. TimeoutException) (ascii ''markdown'') (ascii ''BTCUSDT'') 15 =
     (Inl (ValueError (ascii ''Invalid limit 15. Valid limits: 5, 10, 20, 50, 100, 500, 1000, 5000'')), [])"
proof -
  have s15: "ascii ''Invalid limit '' @ str_int 15 @
               ascii ''. Valid limits: 5, 10, 20, 50, 100, 500, 1000, 5000'' =
             ascii ''Invalid limit 15. Valid limits: 5, 10, 20, 50, 100, 500, 1000, 5000''"
    by (simp add: str_int_def str_nat.simps ascii_def)
  have "validate_limit 5 = Inr 5"
    using validate_limit_accepts [of 5] by simp
  moreover have v15: "validate_limit 15 =
      Inl (ValueError (ascii ''Invalid limit 15. Valid limits: 5, 10, 20, 50, 100, 500, 1000, 5000''))"
    using validate_limit_accepts [of 15] by (simp add: s15)
  moreover have "call_get_order_book rt0 (\<lambda>req. TimeoutException) (ascii ''markdown'')
        (ascii ''BTCUSDT'') 15 =
      (Inl (ValueError (ascii ''Invalid limit 15. Valid limits: 5, 10, 20, 50, 100, 500, 1000, 5000'')), [])"
    by (simp add: call_get_order_book_def new_OrderBookInput_def valid_format_def v15 bind_exc_def)
  ultimately show ?thesis by simp
qed

section \<open>The truncation policy\<close>

lemma bind_exc_simps [simp]:
  "bind_exc (Inl e) f = Inl e" "bind_exc (Inr x) f = f x"
  by (simp_all add: bind_exc_def)

lemma bind_exc_Inr_iff: "bind_exc m f = Inr y \<longleftrightarrow> (\<exists>x. m = Inr x \<and> f x = Inr y)"
  by (cases m) simp_all

lemma bind_exc_Inl_iff:
  "bind_exc m f = Inl e \<longleftrightarrow> m = Inl e \<or> (\<exists>x. m = Inr x \<and> f x = Inl e)"
  by (cases m) auto

lemma is_list_iff: "is_list data \<longleftrightarrow> (\<exists>xs. data = JArr xs)"
  by (cases data) simp_all









section \<open>Evaluation of the renderers on long names\<close>

lemma length_ascii [simp]: "length (ascii s) = length s"
  by (simp add: ascii_def)

lemma ascii_eq_iff [simp]: "ascii s = ascii t \<longleftrightarrow> s = t"
proof -
  have "inj (of_char :: char \<Rightarrow> nat)"
    by (rule injI) simp
  then show ?thesis
    by (simp add: ascii_def inj_map_eq_map)
qed

lemma ascii_Nil_iff [simp]: "ascii s = [] \<longleftrightarrow> s = []" "[] = ascii s \<longleftrightarrow> s = []"
  by (auto simp: ascii_def)

lemma ascii_append [simp]:
  "ascii s @ ascii t = ascii (s @ t)" "ascii s @ ascii t @ r = ascii (s @ t) @ r"
  by (simp_all add: ascii_def)

lemma api_ok: "api_outcome rt (Response 200 (Some d)) = Inr d"
  by (simp add: api_outcome_def response_json_def)








section \<open>The truncation policy, as a whole\<close>









section \<open>Single-object responses\<close>

lemma ensure_list_single: "\<not> is_list d \<Longrightarrow> ensure_list (JArr [d]) = ensure_list d"
  by (simp add: ensure_list_def)

lemma request_respond:
  "make_api_request rt (respond d) endpoint params =
     (Inr d, snd (make_api_request rt (respond d) endpoint params))"
  by (simp add: make_api_request_def respond_def api_ok Let_def)

lemma request_sent_respond:
  "snd (make_api_request rt (respond d) endpoint params) =
   snd (make_api_request rt (respond d') endpoint params)"
  by (simp add: make_api_request_def Let_def)

text \<open>
  C10. In the ticker, price and best-price tools a response body that is not an array is
  rendered exactly as the one-element array holding it, whatever the request (so in both
  formats), together with the same request sent.
\<close>

theorem single_object_wrapped:
  assumes "\<not> is_list d"
  shows "binance_get_ticker rt (respond d) p = binance_get_ticker rt (respond (JArr [d])) p \<and>
         binance_get_price rt (respond d) q = binance_get_price rt (respond (JArr [d])) q \<and>
         binance_get_best_price rt (respond d) q =
           binance_get_best_price rt (respond (JArr [d])) q"
proof (intro conjI)
  have sent: "\<And>endpoint params.
      make_api_request rt (respond (JArr [d])) endpoint params =
        (Inr (JArr [d]), snd (make_api_request rt (respond d) endpoint params))"
    using request_respond [of rt "JArr [d]"] request_sent_respond [of rt "JArr [d]" _ _ d]
    by simp
  show "binance_get_ticker rt (respond d) p = binance_get_ticker rt (respond (JArr [d])) p"
    unfolding binance_get_ticker_def ticker_body_def
    by (subst request_respond, subst sent) (simp add: ensure_list_single [OF assms])
  show "binance_get_price rt (respond d) q = binance_get_price rt (respond (JArr [d])) q"
    unfolding binance_get_price_def price_body_def
    by (subst request_respond, subst sent) (simp add: ensure_list_single [OF assms])
  show "binance_get_best_price rt (respond d) q =
           binance_get_best_price rt (respond (JArr [d])) q"
    unfolding binance_get_best_price_def best_price_body_def
    by (subst request_respond, subst sent) (simp add: ensure_list_single [OF assms])
qed

lemma parse_50000: "parse_decimal (ascii ''50000.12'') = Some (1250003 / 25)"
  by (simp add: parse_decimal_def strip_def is_space_def is_digit_def nat_of_digits_def ascii_def)

lemma fmt_50000: "fmt_spec (ascii '',.2f'') (1250003 / 25) = ascii ''50,000.12''"
  by (simp add: fmt_spec_def fmt_fixed_def round_half_even_def is_digit_def nat_of_digits_def
      ascii_def fmt_thousands.simps str_nat.simps Let_def)

lemma price_line0:
  "price_line rt0 price_object0 = Inr (ascii ''- **BTCUSDT**: $50,000.12'')"
  by (simp add: price_line_def price_object0_def NA_def rt0_simps parse_50000 fmt_50000)

text \<open>The spec's scenario: the single price object renders as the line for BTCUSDT.\<close>

theorem single_object_wrapped_witness:
  "\<not> is_list price_object0 \<and>
   binance_get_price rt0 (respond price_object0) price_request0 =
     binance_get_price rt0 (respond (JArr [price_object0])) price_request0 \<and>
   fst (binance_get_price rt0 (respond (JArr [price_object0])) price_request0) =
     join [10] [ascii ''# Current Prices'' @ [10], ascii ''- **BTCUSDT**: $50,000.12'']"
proof -
  have obj: "\<not> is_list price_object0"
    by (simp add: price_object0_def)
  have "fst (binance_get_price rt0 (respond (JArr [price_object0])) price_request0) =
     join [10] [ascii ''# Current Prices'' @ [10], ascii ''- **BTCUSDT**: $50,000.12'']"
    unfolding binance_get_price_def price_body_def
    by (subst request_respond)
      (simp add: ensure_list_def price_request0_def format_price_markdown_def price_line0
        catch_exc_def)
  then show ?thesis
    using single_object_wrapped [OF obj, of rt0 _ price_request0] obj by simp
qed

section \<open>The dispatch boundary\<close>

lemma recovers_catch: "recovers rt prefix_text body (catch_exc rt prefix_text body)"
  by (cases body) (simp_all add: recovers_def catch_exc_def)

lemma order_book_network_failure:
  assumes "api_outcome rt (net (BINANCE_API_BASE @ ascii ''/api/v3/depth'',
             Some [(ascii ''symbol'', JStr (OrderBookInput.symbol p)),
                   (ascii ''limit'', JInt (OrderBookInput.limit p))])) = Inl e"
  shows "binance_get_order_book rt net p =
           (ascii ''Error fetching order book: '' @ str_exc rt e,
            [(BINANCE_API_BASE @ ascii ''/api/v3/depth'',
              Some [(ascii ''symbol'', JStr (OrderBookInput.symbol p)),
                    (ascii ''limit'', JInt (OrderBookInput.limit p))])])"
  using assms
  by (simp add: binance_get_order_book_def order_book_body_def make_api_request_def catch_exc_def)

lemma order_book_rendering_failure:
  assumes "api_outcome rt (net (BINANCE_API_BASE @ ascii ''/api/v3/depth'',
             Some [(ascii ''symbol'', JStr (OrderBookInput.symbol p)),
                   (ascii ''limit'', JInt (OrderBookInput.limit p))])) = Inr data"
    and "OrderBookInput.response_format p \<noteq> ascii ''json''"
    and "format_order_book_markdown rt data (OrderBookInput.symbol p) = Inl e"
  shows "fst (binance_get_order_book rt net p) = ascii ''Error fetching order book: '' @ str_exc rt e"
  using assms
  by (simp add: binance_get_order_book_def order_book_body_def make_api_request_def catch_exc_def)

text \<open>
  C9, as amended. Every tool returns its body's string, or its prefix followed by the text
  of the exception the body raised; for the order book: a failed network call and a failed
  rendering both come back as such a string. A validation failure is raised while the
  request is built, before the tool runs: the call ends with that exception and sends nothing.
\<close>

theorem tool_failures_recovered:
  "recovers rt (ascii ''Error fetching ticker data: '')
     (fst (ticker_body rt net p1)) (fst (binance_get_ticker rt net p1)) \<and>
   recovers rt (ascii ''Error searching symbols: '')
     (fst (search_symbols_body rt net p2)) (fst (binance_search_symbols rt net p2)) \<and>
   recovers rt (ascii ''Error fetching order book: '')
     (fst (order_book_body rt net p3)) (fst (binance_get_order_book rt net p3)) \<and>
   recovers rt (ascii ''Error fetching klines: '')
     (fst (klines_body rt net p4)) (fst (binance_get_klines rt net p4)) \<and>
   recovers rt (ascii ''Error fetching recent trades: '')
     (fst (recent_trades_body rt net p5)) (fst (binance_get_recent_trades rt net p5)) \<and>
   recovers rt (ascii ''Error fetching exchange info: '')
     (fst (exchange_info_body rt net p6)) (fst (binance_get_exchange_info rt net p6)) \<and>
   recovers rt (ascii ''Error fetching prices: '')
     (fst (price_body rt net p7)) (fst (binance_get_price rt net p7)) \<and>
   recovers rt (ascii ''Error fetching best prices: '')
     (fst (best_price_body rt net p7)) (fst (binance_get_best_price rt net p7)) \<and>
   (\<forall>e. api_outcome rt (net (BINANCE_API_BASE @ ascii ''/api/v3/depth'',
             Some [(ascii ''symbol'', JStr (OrderBookInput.symbol p3)),
                   (ascii ''limit'', JInt (OrderBookInput.limit p3))])) = Inl e \<longrightarrow>
        fst (binance_get_order_book rt net p3) =
          ascii ''Error fetching order book: '' @ str_exc rt e) \<and>
   (\<forall>data e. api_outcome rt (net (BINANCE_API_BASE @ ascii ''/api/v3/depth'',
             Some [(ascii ''symbol'', JStr (OrderBookInput.symbol p3)),
                   (ascii ''limit'', JInt (OrderBookInput.limit p3))])) = Inr data \<and>
        OrderBookInput.response_format p3 \<noteq> ascii ''json'' \<and>
        format_order_book_markdown rt data (OrderBookInput.symbol p3) = Inl e \<longrightarrow>
        fst (binance_get_order_book rt net p3) =
          ascii ''Error fetching order book: '' @ str_exc rt e) \<and>
   (\<forall>e. new_OrderBookInput rt fmt sym_name lmt = Inl e \<longrightarrow>
        call_get_order_book rt net fmt sym_name lmt = (Inl e, [])) \<and>
   (\<forall>e. new_TickerInput rt fmt syms ty = Inl e \<longrightarrow>
        call_get_ticker rt net fmt syms ty = (Inl e, []))"
proof (intro conjI allI impI)
  show "recovers rt (ascii ''Error fetching ticker data: '')
     (fst (ticker_body rt net p1)) (fst (binance_get_ticker rt net p1))"
    by (simp add: binance_get_ticker_def split_beta recovers_catch)
  show "recovers rt (ascii ''Error searching symbols: '')
     (fst (search_symbols_body rt net p2)) (fst (binance_search_symbols rt net p2))"
    by (simp add: binance_search_symbols_def split_beta recovers_catch)
  show "recovers rt (ascii ''Error fetching order book: '')
     (fst (order_book_body rt net p3)) (fst (binance_get_order_book rt net p3))"
    by (simp add: binance_get_order_book_def split_beta recovers_catch)
  show "recovers rt (ascii ''Error fetching klines: '')
     (fst (klines_body rt net p4)) (fst (binance_get_klines rt net p4))"
    by (simp add: binance_get_klines_def split_beta recovers_catch)
  show "recovers rt (ascii ''Error fetching recent trades: '')
     (fst (recent_trades_body rt net p5)) (fst (binance_get_recent_trades rt net p5))"
    by (simp add: binance_get_recent_trades_def split_beta recovers_catch)
  show "recovers rt (ascii ''Error fetching exchange info: '')
     (fst (exchange_info_body rt net p6)) (fst (binance_get_exchange_info rt net p6))"
    by (simp add: binance_get_exchange_info_def split_beta recovers_catch)
  show "recovers rt (ascii ''Error fetching prices: '')
     (fst (price_body rt net p7)) (fst (binance_get_price rt net p7))"
    by (simp add: binance_get_price_def split_beta recovers_catch)
  show "recovers rt (ascii ''Error fetching best prices: '')
     (fst (best_price_body rt net p7)) (fst (binance_get_best_price rt net p7))"
    by (simp add: binance_get_best_price_def split_beta recovers_catch)
next
  fix e
  assume "api_outcome rt (net (BINANCE_API_BASE @ ascii ''/api/v3/depth'',
             Some [(ascii ''symbol'', JStr (OrderBookInput.symbol p3)),
                   (ascii ''limit'', JInt (OrderBookInput.limit p3))])) = Inl e"
  then show "fst (binance_get_order_book rt net p3) =
          ascii ''Error fetching order book: '' @ str_exc rt e"
    by (simp add: order_book_network_failure)
next
  fix data e
  assume "api_outcome rt (net (BINANCE_API_BASE @ ascii ''/api/v3/depth'',
             Some [(ascii ''symbol'', JStr (OrderBookInput.symbol p3)),
                   (ascii ''limit'', JInt (OrderBookInput.limit p3))])) = Inr data \<and>
        OrderBookInput.response_format p3 \<noteq> ascii ''json'' \<and>
        format_order_book_markdown rt data (OrderBookInput.symbol p3) = Inl e"
  then show "fst (binance_get_order_book rt net p3) =
          ascii ''Error fetching order book: '' @ str_exc rt e"
    by (simp add: order_book_rendering_failure)
next
  fix e
  assume "new_OrderBookInput rt fmt sym_name lmt = Inl e"
  then show "call_get_order_book rt net fmt sym_name lmt = (Inl e, [])"
    by (simp add: call_get_order_book_def)
next
  fix e
  assume "new_TickerInput rt fmt syms ty = Inl e"
  then show "call_get_ticker rt net fmt syms ty = (Inl e, [])"
    by (simp add: call_get_ticker_def)
qed

lemma timeout_outcome:
  "api_outcome rt TimeoutException =
     Inl (Exception (ascii ''Request timeout after 10.0 seconds'' @ [10, 10] @
            ascii ''This could be due to network issues or high API load.'' @ [10] @
            ascii ''Action: Please try again.''))"
  by (simp add: api_outcome_def)

theorem tool_failures_recovered_witness:
  "api_outcome rt0 TimeoutException =
     Inl (Exception (ascii ''Request timeout after 10.0 seconds'' @ [10, 10] @
            ascii ''This could be due to network issues or high API load.'' @ [10] @
            ascii ''Action: Please try again.'')) \<and>
   fst (binance_get_order_book rt0 (\<lambda>req. TimeoutException) order_book_request0) =
     ascii ''Error fetching order book: Request timeout after 10.0 seconds'' @ [10, 10] @
     ascii ''This could be due to network issues or high API load.'' @ [10] @
     ascii ''Action: Please try again.''"
proof -
  have "fst (binance_get_order_book rt0 (\<lambda>req. TimeoutException) order_book_request0) =
      ascii ''Error fetching order book: '' @
      str_exc rt0 (Exception (ascii ''Request timeout after 10.0 seconds'' @ [10, 10] @
            ascii ''This could be due to network issues or high API load.'' @ [10] @
            ascii ''Action: Please try again.''))"
    using tool_failures_recovered [of rt0 "\<lambda>req. TimeoutException" _ _ order_book_request0]
      timeout_outcome [of rt0]
    by blast
  then show ?thesis
    by (simp add: str_exc_def timeout_outcome)
qed

text \<open>
  C9 as stated fails: a ticker call with an empty symbol list and an order-book call with
  the limit 15 end with the validation exception, not with a string.
\<close>

theorem validation_failure_escapes:
  "call_get_ticker rt0 (respond JNull) (ascii ''markdown'') [] (ascii ''FULL'') =
     (Inl ValidationError, []) \<and>
   call_get_order_book rt0 (respond JNull) (ascii ''markdown'') (ascii ''BTCUSDT'') 15 =
     (Inl (ValueError (ascii ''Invalid limit 15. Valid limits: 5, 10, 20, 50, 100, 500, 1000, 5000'')),
      [])"
proof -
  have v15: "validate_limit 15 =
      Inl (ValueError (ascii ''Invalid limit 15. Valid limits: 5, 10, 20, 50, 100, 500, 1000, 5000''))"
    by (simp add: validate_limit_def valid_limits_def str_int_def str_nat.simps
        del: ascii_append) (simp add: ascii_def)
  show ?thesis
    by (simp add: call_get_ticker_def new_TickerInput_def call_get_order_book_def
        new_OrderBookInput_def valid_format_def v15)
qed

section \<open>The order-book spread\<close>

lemma list_index_simps [simp]:
  "list_index (x # xs) 0 = Some x"
  "list_index [] i = None"
  by (simp_all add: list_index_def)

lemma parse_small [simp]:
  "parse_decimal (ascii ''0'') = Some 0"
  "parse_decimal (ascii ''1'') = Some 1"
  "parse_decimal (ascii ''-1'') = Some (- 1)"
  "parse_decimal (ascii ''-2'') = Some (- 2)"
  "parse_decimal (ascii ''0.5'') = Some (1 / 2)"
  by (simp_all add: parse_decimal_def strip_def is_space_def is_digit_def nat_of_digits_def
      ascii_def)

lemma zero_bid_spread:
  "spread_analysis rt0
     (JArr [JArr [JStr (ascii ''0''), JStr (ascii ''1'')]])
     (JArr [JArr [JStr (ascii ''1''), JStr (ascii ''1'')]]) = Inl ZeroDivisionError"
  by (simp add: spread_analysis_def rt0_simps py_div_def)

lemma book_row_one:
  "\<exists>row. book_row rt0 (JArr [JStr (ascii p), JStr (ascii q)]) = Inr row"
  if "parse_decimal (ascii p) \<noteq> None" "parse_decimal (ascii q) \<noteq> None"
  using that by (auto simp: book_row_def unpack2_def rt0_simps)

text \<open>
  C2. The claim says that with a best bid of zero the spread is reported as absent. The
  renderer divides by the best bid with no guard (unlike \<^verbatim>\<open>binance_get_best_price\<close>, whose
  percentage is 0 when the bid is not positive): for the book with the single bid
  \<^verbatim>\<open>["0", "1"]\<close> and the single ask \<^verbatim>\<open>["1", "1"]\<close> the rendering raises
  \<^verbatim>\<open>ZeroDivisionError\<close>, and the order-book tool returns its error string instead of a book.
\<close>

theorem order_book_zero_bid_raises:
  "format_order_book_markdown rt0 zero_bid_book (ascii ''BTCUSDT'') = Inl ZeroDivisionError \<and>
   fst (binance_get_order_book rt0 (respond zero_bid_book) order_book_request0) =
     ascii ''Error fetching order book: '' @ str_exc rt0 ZeroDivisionError"
proof -
  obtain r1 where r1: "book_row rt0 (JArr [JStr (ascii ''0''), JStr (ascii ''1'')]) = Inr r1"
    using book_row_one [of "''0''" "''1''"] by auto
  obtain r2 where r2: "book_row rt0 (JArr [JStr (ascii ''1''), JStr (ascii ''1'')]) = Inr r2"
    using book_row_one [of "''1''" "''1''"] by auto
  have lines: "order_book_lines rt0 zero_bid_book (ascii ''BTCUSDT'') = Inl ZeroDivisionError"
    by (simp add: order_book_lines_def zero_bid_book_def book_rows_def r1 r2 spread_lines_def
        zero_bid_spread)
  then have md: "format_order_book_markdown rt0 zero_bid_book (ascii ''BTCUSDT'') =
      Inl ZeroDivisionError"
    by (simp add: format_order_book_markdown_def)
  have "fst (binance_get_order_book rt0 (respond zero_bid_book) order_book_request0) =
     ascii ''Error fetching order book: '' @ str_exc rt0 ZeroDivisionError"
    unfolding binance_get_order_book_def order_book_body_def
    by (subst request_respond) (simp add: order_book_request0_def md catch_exc_def)
  with md show ?thesis by simp
qed


lemma spread_analysis_value:
  assumes "py_index bids 0 = Inr bid0" and "py_index bid0 0 = Inr bid_price"
    and "py_float rt bid_price = Inr best_bid"
    and "py_index asks 0 = Inr ask0" and "py_index ask0 0 = Inr ask_price"
    and "py_float rt ask_price = Inr best_ask"
  shows "spread_analysis rt bids asks =
           (if best_bid = 0 then Inl ZeroDivisionError
            else Inr (best_bid, best_ask, best_ask - best_bid,
                      (best_ask - best_bid) / best_bid * 100))"
  using assms by (simp add: spread_analysis_def py_div_def Let_def)

lemma spread_absent:
  "\<not> truthy bids \<or> \<not> truthy asks \<Longrightarrow> spread_lines rt bids asks = Inr []"
  by (auto simp: spread_lines_def)

lemma best_price_spread_value:
  "best_price_spread bid_price ask_price =
     Inr (ask_price - bid_price,
          if bid_price > 0 then (ask_price - bid_price) / bid_price * 100 else 0)"
  by (simp add: best_price_spread_def py_div_def Let_def)

section \<open>The period summary\<close>

lemma bind_no_zero_div:
  assumes "m \<noteq> Inl ZeroDivisionError" and "\<And>x. m = Inr x \<Longrightarrow> f x \<noteq> Inl ZeroDivisionError"
  shows "bind_exc m f \<noteq> Inl ZeroDivisionError"
  using assms by (cases m) auto

lemma py_index_no_zero_div [simp]: "py_index v i \<noteq> Inl ZeroDivisionError"
  by (cases v) (auto split: option.splits)

lemma py_float_no_zero_div [simp]: "py_float rt v \<noteq> Inl ZeroDivisionError"
  by (cases v) (auto simp: float_of_int_def split: option.splits)

lemma py_slice_no_zero_div [simp]: "py_slice n v \<noteq> Inl ZeroDivisionError"
  by (cases v) auto

lemma py_iter_no_zero_div [simp]: "py_iter v \<noteq> Inl ZeroDivisionError"
  by (cases v) auto

lemma py_len_no_zero_div [simp]: "py_len v \<noteq> Inl ZeroDivisionError"
  by (cases v) auto

lemma guarded_change_no_zero_div [simp]:
  "(if b > 0 then bind_exc (py_div a b) (\<lambda>r. Inr (r * 100)) else Inr 0) \<noteq> Inl ZeroDivisionError"
  by (simp add: py_div_def)

lemma guarded_change_value:
  "(if b > 0 then bind_exc (py_div a b) (\<lambda>r. Inr (r * 100)) else Inr 0) =
     Inr (if b > 0 then a / b * 100 else 0)"
  by (simp add: py_div_def)

lemma map_exc_Inl:
  "map_exc f xs = Inl e \<Longrightarrow> \<exists>x \<in> set xs. f x = Inl e"
  by (induction xs) (auto simp: bind_exc_Inl_iff)

lemma period_summary_no_zero_div: "period_summary rt klines \<noteq> Inl ZeroDivisionError"
  unfolding period_summary_def guarded_change_value
  by (intro bind_no_zero_div) simp_all

lemma format_timestamp_no_zero_div:
  assumes "\<And>t. strftime_local rt t \<noteq> Inl ZeroDivisionError"
  shows "format_timestamp rt v \<noteq> Inl ZeroDivisionError"
  using assms by (cases v) (auto simp: float_of_int_def)

lemma kline_row_no_zero_div:
  assumes "\<And>t. strftime_local rt t \<noteq> Inl ZeroDivisionError"
  shows "kline_row rt kline \<noteq> Inl ZeroDivisionError"
  unfolding kline_row_def guarded_change_value
  by (intro bind_no_zero_div) (simp_all add: format_timestamp_no_zero_div [OF assms])

lemma kline_rows_no_zero_div:
  assumes "\<And>t. strftime_local rt t \<noteq> Inl ZeroDivisionError"
  shows "kline_rows rt klines \<noteq> Inl ZeroDivisionError"
proof -
  have "map_exc (kline_row rt) items \<noteq> Inl ZeroDivisionError" for items
    using map_exc_Inl [of "kline_row rt" items ZeroDivisionError] kline_row_no_zero_div [OF assms]
    by blast
  then show ?thesis
    unfolding kline_rows_def by (intro bind_no_zero_div) simp_all
qed

lemma format_klines_no_zero_div:
  assumes "\<And>t. strftime_local rt t \<noteq> Inl ZeroDivisionError"
  shows "format_klines_markdown rt klines symbol_name iv \<noteq> Inl ZeroDivisionError"
proof -
  have "klines_lines rt klines symbol_name iv \<noteq> Inl ZeroDivisionError"
    unfolding klines_lines_def
    by (intro bind_no_zero_div)
      (auto simp: kline_rows_no_zero_div [OF assms] period_summary_no_zero_div split_beta
        bind_exc_Inl_iff)
  then show ?thesis
    by (auto simp: format_klines_markdown_def bind_exc_Inl_iff)
qed

text \<open>
  C6, as amended. For a candle list whose first and last candles have readable closes, the
  period summary's overall change is \<open>(last close - first close) / first close * 100\<close> when
  the first close is positive and 0 otherwise (zero or negative). The summary never raises a
  division error, and neither does the whole candle rendering as long as formatting a time
  does not.
\<close>

theorem period_summary_change:
  "(py_index klines 0 = Inr first_candle \<and> py_index klines (- 1) = Inr last_candle \<and>
    py_index first_candle 4 = Inr c1 \<and> py_float rt c1 = Inr first_close \<and>
    py_index last_candle 4 = Inr c2 \<and> py_float rt c2 = Inr last_close \<longrightarrow>
      period_summary rt klines =
        Inr (first_close, last_close,
             if first_close > 0 then (last_close - first_close) / first_close * 100 else 0)) \<and>
   period_summary rt klines \<noteq> Inl ZeroDivisionError \<and>
   ((\<forall>t. strftime_local rt t \<noteq> Inl ZeroDivisionError) \<longrightarrow>
      format_klines_markdown rt klines symbol_name iv \<noteq> Inl ZeroDivisionError)"
proof (intro conjI impI)
  assume "py_index klines 0 = Inr first_candle \<and> py_index klines (- 1) = Inr last_candle \<and>
    py_index first_candle 4 = Inr c1 \<and> py_float rt c1 = Inr first_close \<and>
    py_index last_candle 4 = Inr c2 \<and> py_float rt c2 = Inr last_close"
  then show "period_summary rt klines =
        Inr (first_close, last_close,
             if first_close > 0 then (last_close - first_close) / first_close * 100 else 0)"
    by (simp add: period_summary_def guarded_change_value)
next
  show "period_summary rt klines \<noteq> Inl ZeroDivisionError"
    by (rule period_summary_no_zero_div)
next
  assume "\<forall>t. strftime_local rt t \<noteq> Inl ZeroDivisionError"
  then show "format_klines_markdown rt klines symbol_name iv \<noteq> Inl ZeroDivisionError"
    by (intro format_klines_no_zero_div) simp
qed

lemma list_index_last [simp]: "list_index [x, y] (- 1) = Some y" "list_index [x] (- 1) = Some x"
  by (simp_all add: list_index_def)

lemma list_index_4 [simp]: "list_index (a # b # c # d # e # xs) 4 = Some e"
  by (simp add: list_index_def)

section \<open>The period summary on concrete candles\<close>

text \<open>
  C6 as stated fails: with the closes \<open>-1\<close> and \<open>-2\<close> the overall change reported is 0, while
  \<open>(last close - first close) / first close * 100\<close> is 100.
\<close>

theorem negative_close_change_zero:
  "period_summary rt0 falling_klines = Inr (- 1, - 2, 0) \<and>
   ((- 2) - (- 1)) / (- 1) * 100 = (100 :: rat)"
  by (simp add: period_summary_def falling_klines_def rt0_simps)

lemma if_no_zero_div: "(if c then Inl (ValueError m) else Inr x) \<noteq> Inl ZeroDivisionError"
  by simp

lemma strftime_utc_no_zero_div: "strftime_utc t \<noteq> Inl ZeroDivisionError"
  unfolding strftime_utc_def Let_def by (rule if_no_zero_div)

text \<open>The spec's scenario: a first close of zero gives an overall change of 0.\<close>

theorem period_summary_change_witness:
  "(\<forall>t. strftime_local rt0 t \<noteq> Inl ZeroDivisionError) \<and>
   period_summary rt0 zero_close_klines = Inr (0, 1, 0) \<and>
   format_klines_markdown rt0 zero_close_klines (ascii ''BTCUSDT'') (ascii ''1h'') \<noteq>
     Inl ZeroDivisionError"
proof -
  let ?k1 = "JArr [JInt 0, JStr (ascii ''1''), JStr (ascii ''1''), JStr (ascii ''1''),
                 JStr (ascii ''0''), JStr (ascii ''1'')]"
  let ?k2 = "JArr [JInt 0, JStr (ascii ''1''), JStr (ascii ''1''), JStr (ascii ''1''),
                 JStr (ascii ''1''), JStr (ascii ''1'')]"
  have st: "\<forall>t. strftime_local rt0 t \<noteq> Inl ZeroDivisionError"
    by (simp add: rt0_simps strftime_utc_no_zero_div)
  have pre: "py_index zero_close_klines 0 = Inr ?k1 \<and> py_index zero_close_klines (- 1) = Inr ?k2 \<and>
    py_index ?k1 4 = Inr (JStr (ascii ''0'')) \<and> py_float rt0 (JStr (ascii ''0'')) = Inr 0 \<and>
    py_index ?k2 4 = Inr (JStr (ascii ''1'')) \<and> py_float rt0 (JStr (ascii ''1'')) = Inr 1"
    by (simp add: zero_close_klines_def rt0_simps)
  show ?thesis
    using period_summary_change [of zero_close_klines ?k1 ?k2 "JStr (ascii ''0'')" rt0 0
        "JStr (ascii ''1'')" 1 "ascii ''BTCUSDT''" "ascii ''1h''"] pre st
    by simp
qed

section \<open>Short candle rows and trades without a quantity\<close>

lemma strftime_utc_epoch: "strftime_utc 0 = Inr (ascii ''1970-01-01 00:00:00 UTC'')"
  by code_simp

lemma format_timestamp_epoch:
  "format_timestamp rt0 (JInt 0) = Inr (ascii ''1970-01-01 00:00:00 UTC'')"
  by (simp add: float_of_int_def rt0_simps strftime_utc_epoch)

lemma list_index_numeral [simp]:
  "list_index (a # b # xs) 1 = Some b"
  "list_index (a # b # c # xs) 2 = Some c"
  "list_index (a # b # c # d # xs) 3 = Some d"
  "list_index [a, b, c, d, e] 5 = None"
  by (simp_all add: list_index_def)



lemma trade_without_qty_row: "\<exists>row. trade_row rt0 trade_without_qty = Inr row"
  by (simp add: trade_row_def trade_without_qty_def format_timestamp_epoch rt0_simps
      float_of_int_def del: format_timestamp.simps)

text \<open>
  The volume sums of the trade summary read \<^verbatim>\<open>t["qty"]\<close> directly, where the table row uses
  \<^verbatim>\<open>get\<close>: a trade without a quantity gets a row, and then the rendering raises
  \<^verbatim>\<open>KeyError\<close>.
\<close>

lemma trade_without_qty_raises:
  "format_trades_markdown rt0 (JArr [trade_without_qty]) (ascii ''BTCUSDT'') =
     Inl (KeyError (JStr (ascii ''qty'')))"
proof -
  obtain row where row: "trade_row rt0 trade_without_qty = Inr row"
    using trade_without_qty_row by blast
  have "qty_sum rt0 False [trade_without_qty] = Inl (KeyError (JStr (ascii ''qty'')))"
    by (simp add: trade_without_qty_def)
  then show ?thesis
    by (simp add: format_trades_markdown_def trades_lines_def trade_rows_def row)
qed

section \<open>Absent fields\<close>

lemma py_get_absent: "map_of kvs k = None \<Longrightarrow> py_get (JObj kvs) k d = Inr d"
  by simp








section \<open>Fixed-point formatting of whole numbers\<close>







section \<open>Absent fields, on empty records\<close>


section \<open>Shapes of the renderings\<close>

lemma map_exc_length: "map_exc f xs = Inr ys \<Longrightarrow> length ys = length xs"
  by (induction xs arbitrary: ys) (auto simp: bind_exc_Inr_iff)

lemma sliced_items:
  "py_slice n side = Inr sliced \<Longrightarrow> py_iter sliced = Inr items \<Longrightarrow> length items \<le> n"
  by (cases side) auto


lemma book_rows_count:
  assumes "book_rows rt (JArr xs) = Inr rows"
  shows "length rows = min 10 (length xs)"
  using assms by (auto simp: book_rows_def dest!: map_exc_length)

lemma kline_rows_cap:
  assumes "kline_rows rt klines = Inr rows"
  shows "length rows \<le> 50"
  using assms sliced_items [of 50 klines]
  by (auto simp: kline_rows_def bind_exc_Inr_iff dest!: map_exc_length)


lemma trade_rows_cap:
  assumes "trade_rows rt trades = Inr rows"
  shows "length rows \<le> 50"
  using assms sliced_items [of 50 trades]
  by (auto simp: trade_rows_def bind_exc_Inr_iff dest!: map_exc_length)





section \<open>Caps and notes\<close>




section \<open>Renderings of small responses\<close>

lemma parse_2_3 [simp]:
  "parse_decimal (ascii ''2'') = Some 2" "parse_decimal (ascii ''3'') = Some 3"
  by (simp_all add: parse_decimal_def strip_def is_space_def is_digit_def nat_of_digits_def
      ascii_def)








lemma list_index_5 [simp]: "list_index (a # b # c # d # e # f # xs) 5 = Some f"
  by (simp add: list_index_def)





end
